theory Spec2Isabelle
  imports Complex_Main "HOL-Library.Word" "HOL-Library.AList"
begin

unbundle bit_operations_syntax

section \<open>The scripting bridge of ardb (lua\_scripting.cpp)\<close>

text \<open>
  The file embeds a Lua interpreter into the server. The interpreter itself is a library
  outside the repository; what the C++ code observes of it through the Lua C API is modelled
  here by values: a function of the source that reads its operands from the Lua stack and
  leaves its results there takes them as arguments and returns them.
\<close>

subsection \<open>Lua values\<close>

text \<open>
  The C functions the source registers in the interpreter (\<open>LUAInterpreter::Call\<close>,
  \<open>LUAInterpreter::PCall\<close>, ...), as the function pointers pushed by
  \<open>lua_pushcfunction\<close>.
\<close>

datatype cfunction =
    Fn_Call | Fn_PCall | Fn_Log | Fn_SHA1Hex | Fn_ErrorReplyCommand | Fn_StatusReplyCommand
  | Fn_MathRandom | Fn_MathRandomSeed

text \<open>
  A \<open>lua_Number\<close> is a double; a finite double is a rational number and is modelled by
  its exact value (infinities and NaN are not represented). A string is a sequence of
  bytes and may contain the byte 0. A table is the finite list of its entries, read with
  \<open>lua_gettable\<close>; the source only ever probes string and number keys. \<open>LOpaque\<close>
  stands for the remaining types (Lua closures, userdata, threads). A value is a finite
  tree: a table that is reachable from itself and a table whose metatable answers
  \<open>lua_gettable\<close> are not represented.
\<close>

datatype lua_key = KStr string | KNum rat

datatype lua_value =
    LNil
  | LBool bool
  | LNum rat
  | LStr string
  | LTable "(lua_key \<times> lua_value) list"
  | LCFunction cfunction
  | LOpaque

type_synonym lua_table = "(lua_key \<times> lua_value) list"

datatype lua_type_tag =
    LUA_TNIL | LUA_TBOOLEAN | LUA_TNUMBER | LUA_TSTRING | LUA_TTABLE | LUA_TFUNCTION
  | LUA_TOTHER

fun lua_type :: "lua_value \<Rightarrow> lua_type_tag" where
  "lua_type LNil = LUA_TNIL"
| "lua_type (LBool b) = LUA_TBOOLEAN"
| "lua_type (LNum x) = LUA_TNUMBER"
| "lua_type (LStr s) = LUA_TSTRING"
| "lua_type (LTable t) = LUA_TTABLE"
| "lua_type (LCFunction f) = LUA_TFUNCTION"
| "lua_type LOpaque = LUA_TOTHER"

definition lua_gettable :: "lua_table \<Rightarrow> lua_key \<Rightarrow> lua_value" where
  "lua_gettable t k = (case map_of t k of None \<Rightarrow> LNil | Some v \<Rightarrow> v)"

text \<open>Storing nil removes the entry; any other value replaces or adds it.\<close>

definition lua_settable :: "lua_table \<Rightarrow> lua_key \<Rightarrow> lua_value \<Rightarrow> lua_table" where
  "lua_settable t k v = (if v = LNil then AList.delete k t else AList.update k v t)"

text \<open>
  The bytes of a Lua string, as \<open>lua_tostring\<close> points to them on a value of type
  \<open>LUA_TSTRING\<close>, and what a \<open>std::string\<close> built from that \<open>const char *\<close>
  holds: the bytes before the first byte 0.
\<close>

fun lua_tostring :: "lua_value \<Rightarrow> string" where
  "lua_tostring (LStr s) = s"
| "lua_tostring v = []"

definition c_str :: "string \<Rightarrow> string" where
  "c_str s = takeWhile (\<lambda>c. c \<noteq> CHR 0x00) s"

subsection \<open>Wire replies\<close>

text \<open>
  Modelled from the spec: the declaration of \<open>RedisReply\<close> is not among the sources. The
  spec gives it as a tagged variant of six kinds, \<open>Integer(i64)\<close>, \<open>Nil\<close>,
  \<open>BulkString\<close>, \<open>Status\<close>, \<open>Error\<close> and \<open>Array\<close>; the constructors carry the names
  of the source's type constants and the field the source fills for that type.
\<close>

datatype RedisReply =
    REDIS_REPLY_INTEGER "64 word"
  | REDIS_REPLY_NIL
  | REDIS_REPLY_STRING string
  | REDIS_REPLY_STATUS string
  | REDIS_REPLY_ERROR string
  | REDIS_REPLY_ARRAY "RedisReply list"

subsection \<open>Conversions between \<open>long long\<close> and \<open>lua_Number\<close>\<close>

text \<open>
  \<open>(lua_Number) reply.integer\<close>: the nearest double, ties to the even significand. A
  double has 53 significant bits; \<open>excess_bits a\<close> is the number of low bits of \<open>a\<close>
  that do not fit, and rounding an integer to a double gives an integer again.
\<close>

fun excess_bits :: "nat \<Rightarrow> nat" where
  "excess_bits a = (if a < 2 ^ 53 then 0 else Suc (excess_bits (a div 2)))"

declare excess_bits.simps [simp del]

definition round_binary64 :: "int \<Rightarrow> int" where
  "round_binary64 z =
     (let a = nat \<bar>z\<bar>;
          e = excess_bits a;
          q = a div 2 ^ e;
          r = a mod 2 ^ e;
          q' = (if 2 ^ e < 2 * r \<or> (2 * r = 2 ^ e \<and> odd q) then q + 1 else q)
      in sgn z * int (q' * 2 ^ e))"

definition to_lua_Number :: "64 word \<Rightarrow> rat" where
  "to_lua_Number i = of_int (round_binary64 (sint i))"

text \<open>
  \<open>(long long) x\<close> truncates toward zero. C++ defines the conversion only when the
  truncated value is a \<open>long long\<close>; otherwise the model has no result.
\<close>

definition truncate_toward_zero :: "rat \<Rightarrow> int" where
  "truncate_toward_zero x = (if 0 \<le> x then \<lfloor>x\<rfloor> else \<lceil>x\<rceil>)"

definition to_long_long :: "rat \<Rightarrow> 64 word option" where
  "to_long_long x =
     (let z = truncate_toward_zero x
      in if - (2 ^ 63) \<le> z \<and> z < 2 ^ 63 then Some (word_of_int z) else None)"

subsection \<open>\<open>string_replace\<close>\<close>

text \<open>
  Modelled from the spec: \<open>string_replace\<close> is a utility of the repository that is not
  among the sources. The spec has it replace the newline sequences of a message by a single
  space: every occurrence of the pattern, found from left to right, the search resuming
  behind the replacement.
\<close>

function string_replace :: "string \<Rightarrow> string \<Rightarrow> string \<Rightarrow> string" where
  "string_replace s pat new =
     (if s = [] \<or> pat = [] then s
      else if take (length pat) s = pat
           then new @ string_replace (drop (length pat) s) pat new
           else hd s # string_replace (tl s) pat new)"
  by pat_completeness auto
termination
  by (relation "measure (\<lambda>(s, pat, new). length s)") (auto simp: neq_Nil_conv)

declare string_replace.simps [simp del]

definition CRLF :: string where
  "CRLF = [CHR 0x0D, CHR 0x0A]"

subsection \<open>\<open>redisProtocolToLuaType\<close>\<close>

text \<open>
  The loop of the array case pushes the index \<open>j + 1\<close> and the converted element and
  stores the pair in the new table. (\<open>j\<close> is a \<open>uint32\<close> in the source and cannot wrap
  before the reply has \<open>2 ^ 32\<close> elements.)
\<close>

fun push_elements :: "nat \<Rightarrow> lua_value list \<Rightarrow> lua_table \<Rightarrow> lua_table" where
  "push_elements j [] t = t"
| "push_elements j (v # vs) t = push_elements (Suc j) vs (lua_settable t (KNum (of_nat (j + 1))) v)"

fun redisProtocolToLuaType :: "RedisReply \<Rightarrow> lua_value" where
  "redisProtocolToLuaType (REDIS_REPLY_INTEGER i) = LNum (to_lua_Number i)"
| "redisProtocolToLuaType REDIS_REPLY_NIL = LBool False"
| "redisProtocolToLuaType (REDIS_REPLY_STRING s) = LStr s"
| "redisProtocolToLuaType (REDIS_REPLY_STATUS s) = LTable (lua_settable [] (KStr ''ok'') (LStr s))"
| "redisProtocolToLuaType (REDIS_REPLY_ERROR s) = LTable (lua_settable [] (KStr ''err'') (LStr s))"
| "redisProtocolToLuaType (REDIS_REPLY_ARRAY es) =
     LTable (push_elements 0 (map redisProtocolToLuaType es) [])"

subsection \<open>\<open>luaReplyToRedisReply\<close>\<close>

text \<open>
  \<open>pending t j\<close> counts the entries of \<open>t\<close> at the indices from \<open>j\<close> on: it bounds the
  number of rounds the array loop still makes.
\<close>

definition pending :: "lua_table \<Rightarrow> nat \<Rightarrow> nat" where
  "pending t j = length (filter (\<lambda>e. \<exists>n. j \<le> n \<and> fst e = KNum (of_nat n)) t)"

lemma length_filter_mono:
  "(\<And>x. x \<in> set xs \<Longrightarrow> P x \<Longrightarrow> Q x) \<Longrightarrow> length (filter P xs) \<le> length (filter Q xs)"
  by (induction xs) auto

lemma length_filter_strict:
  assumes "\<And>x. x \<in> set xs \<Longrightarrow> P x \<Longrightarrow> Q x" and "y \<in> set xs" and "Q y" and "\<not> P y"
  shows "length (filter P xs) < length (filter Q xs)"
  using assms
proof (induction xs)
  case Nil
  then show ?case by simp
next
  case (Cons x xs)
  have mono: "length (filter P xs) \<le> length (filter Q xs)"
    using Cons.prems(1) by (intro length_filter_mono) auto
  show ?case
  proof (cases "y = x")
    case True
    with Cons.prems mono show ?thesis by auto
  next
    case False
    with Cons.prems have "y \<in> set xs" by simp
    with Cons have "length (filter P xs) < length (filter Q xs)" by auto
    with Cons.prems(1) [of x] show ?thesis by auto
  qed
qed

lemma pending_decreases:
  assumes "lua_gettable t (KNum (of_nat j)) \<noteq> LNil"
  shows "pending t (Suc j) < pending t j"
proof -
  from assms obtain v where "map_of t (KNum (of_nat j)) = Some v"
    by (auto simp: lua_gettable_def split: option.splits)
  then have mem: "(KNum (of_nat j), v) \<in> set t"
    by (rule map_of_SomeD)
  show ?thesis
    unfolding pending_def
  proof (rule length_filter_strict [OF _ mem])
    show "\<exists>n. j \<le> n \<and> fst (KNum (of_nat j), v) = KNum (of_nat n)"
      by auto
    show "\<not> (\<exists>n. Suc j \<le> n \<and> fst (KNum (of_nat j), v) = KNum (of_nat n))"
      by auto
  qed auto
qed

lemma size_map_of:
  "map_of t k = Some v \<Longrightarrow> size v < size (LTable t)"
proof -
  assume "map_of t k = Some v"
  then have "(k, v) \<in> set t" by (rule map_of_SomeD)
  then have "size v < Suc (size_list (size_prod (\<lambda>_. 0) size) t)"
    by (induction t) auto
  then show ?thesis by simp
qed

lemma size_lua_gettable:
  "lua_gettable t k \<noteq> LNil \<Longrightarrow> size (lua_gettable t k) < size (LTable t)"
proof -
  assume "lua_gettable t k \<noteq> LNil"
  then have "map_of t k = Some (lua_gettable t k)"
    by (auto simp: lua_gettable_def split: option.splits)
  then show ?thesis by (rule size_map_of)
qed

text \<open>
  The source's function, on the value at the top of the stack; it leaves nothing on the
  stack. In the table case the \<open>err\<close> field is tried first, then the \<open>ok\<close> field, then
  the indices \<open>1, 2, ...\<close> until \<open>lua_gettable\<close> yields nil. (\<open>j\<close> is an \<open>int\<close> in the
  source; it cannot overflow before the table has \<open>2 ^ 31 - 1\<close> consecutive entries.)
\<close>

function luaReplyToRedisReply :: "lua_value \<Rightarrow> RedisReply option"
  and array_loop :: "lua_table \<Rightarrow> nat \<Rightarrow> RedisReply list option" where
  "luaReplyToRedisReply (LStr s) = Some (REDIS_REPLY_STRING s)"
| "luaReplyToRedisReply (LBool b) = Some (if b then REDIS_REPLY_INTEGER 1 else REDIS_REPLY_NIL)"
| "luaReplyToRedisReply (LNum x) = map_option REDIS_REPLY_INTEGER (to_long_long x)"
| "luaReplyToRedisReply (LTable t) =
     (if lua_type (lua_gettable t (KStr ''err'')) = LUA_TSTRING
      then Some (REDIS_REPLY_ERROR
             (string_replace (c_str (lua_tostring (lua_gettable t (KStr ''err'')))) CRLF '' ''))
      else if lua_type (lua_gettable t (KStr ''ok'')) = LUA_TSTRING
      then Some (REDIS_REPLY_STATUS
             (string_replace (c_str (lua_tostring (lua_gettable t (KStr ''ok'')))) CRLF '' ''))
      else map_option REDIS_REPLY_ARRAY (array_loop t 1))"
| "luaReplyToRedisReply LNil = Some REDIS_REPLY_NIL"
| "luaReplyToRedisReply (LCFunction f) = Some REDIS_REPLY_NIL"
| "luaReplyToRedisReply LOpaque = Some REDIS_REPLY_NIL"
| "array_loop t j =
     (if lua_type (lua_gettable t (KNum (of_nat j))) = LUA_TNIL then Some []
      else case luaReplyToRedisReply (lua_gettable t (KNum (of_nat j))) of
             None \<Rightarrow> None
           | Some r \<Rightarrow> map_option ((#) r) (array_loop t (Suc j)))"
  by pat_completeness auto
termination
proof (relation "inv_image (less_than <*lex*> less_than <*lex*> less_than)
    (\<lambda>x. case x of Inl v \<Rightarrow> (size v, 1::nat, 0::nat)
                 | Inr (t, j) \<Rightarrow> (size (LTable t), 0, pending t j))", goal_cases)
  case 1
  show ?case by (intro wf_inv_image wf_lex_prod wf_less_than)
next
  case (2 t)
  show ?case by simp
next
  case (3 t j)
  then have "lua_gettable t (KNum (of_nat j)) \<noteq> LNil"
    by (cases "lua_gettable t (KNum (of_nat j))") auto
  then show ?case
    using size_lua_gettable [of t "KNum (of_nat j)"] by simp
next
  case (4 t j r)
  then have "lua_gettable t (KNum (of_nat j)) \<noteq> LNil"
    by (cases "lua_gettable t (KNum (of_nat j))") auto
  then show ?case
    using pending_decreases [of t j] by simp
qed

declare array_loop.simps [simp del]

subsection \<open>The reference map of the marshaler\<close>

text \<open>
  This definition follows the words of the specification, not the source. A table becomes
  an array of the values at the indices \<open>1, 2, 3, ...\<close> before the first missing one; a
  table of \<open>n\<close> entries has a missing index among the first \<open>n + 1\<close>. The parameter
  \<open>msg\<close> says how the message of an \<open>err\<close> or \<open>ok\<close> field is read from the Lua string.
  An \<open>Integer\<close> holds 64 bits: a number whose truncation is outside that range has no
  reply, and an array with such an element has none.
\<close>

definition sequence_part :: "lua_table \<Rightarrow> lua_value list" where
  "sequence_part t =
     takeWhile (\<lambda>v. v \<noteq> LNil) (map (\<lambda>i. lua_gettable t (KNum (of_nat i))) [1 ..< length t + 2])"

lemma size_sequence_part: "x \<in> set (sequence_part t) \<Longrightarrow> size x < size (LTable t)"
proof -
  assume "x \<in> set (sequence_part t)"
  then obtain k where "x = lua_gettable t k" and "x \<noteq> LNil"
    unfolding sequence_part_def by (auto dest!: set_takeWhileD)
  then show ?thesis using size_lua_gettable [of t k] by simp
qed

definition integer_reply :: "int \<Rightarrow> RedisReply option" where
  "integer_reply z =
     (if - (2 ^ 63) \<le> z \<and> z < 2 ^ 63 then Some (REDIS_REPLY_INTEGER (word_of_int z)) else None)"

function toWireReply :: "(string \<Rightarrow> string) \<Rightarrow> lua_value \<Rightarrow> RedisReply option" where
  "toWireReply msg (LStr s) = Some (REDIS_REPLY_STRING s)"
| "toWireReply msg (LBool False) = Some REDIS_REPLY_NIL"
| "toWireReply msg (LBool True) = Some (REDIS_REPLY_INTEGER 1)"
| "toWireReply msg (LNum x) = integer_reply (truncate_toward_zero x)"
| "toWireReply msg (LTable t) =
     (if lua_type (lua_gettable t (KStr ''err'')) = LUA_TSTRING
      then Some (REDIS_REPLY_ERROR
             (string_replace (msg (lua_tostring (lua_gettable t (KStr ''err'')))) CRLF '' ''))
      else if lua_type (lua_gettable t (KStr ''ok'')) = LUA_TSTRING
      then Some (REDIS_REPLY_STATUS
             (string_replace (msg (lua_tostring (lua_gettable t (KStr ''ok'')))) CRLF '' ''))
      else map_option REDIS_REPLY_ARRAY (those (map (toWireReply msg) (sequence_part t))))"
| "toWireReply msg LNil = Some REDIS_REPLY_NIL"
| "toWireReply msg (LCFunction f) = Some REDIS_REPLY_NIL"
| "toWireReply msg LOpaque = Some REDIS_REPLY_NIL"
  by pat_completeness auto
termination
proof (relation "measure (\<lambda>(msg, v). size v)", goal_cases)
  case 1
  show ?case by simp
next
  case (2 msg t x)
  then show ?case using size_sequence_part [of x t] by simp
qed

subsection \<open>Replies that survive the round trip\<close>

text \<open>
  \<open>occurs pat s\<close>: the pattern occurs in \<open>s\<close>. A line is clean when it has no byte 0
  and no line terminator. \<open>round_trip_safe\<close> asks this of every status and error line
  of a reply, at any depth, and asks every integer in it to be one a double holds exactly.
\<close>

fun occurs :: "string \<Rightarrow> string \<Rightarrow> bool" where
  "occurs pat [] = (pat = [])"
| "occurs pat (c # cs) = (take (length pat) (c # cs) = pat \<or> occurs pat cs)"

definition line_clean :: "string \<Rightarrow> bool" where
  "line_clean s = (CHR 0x00 \<notin> set s \<and> \<not> occurs CRLF s)"

fun round_trip_safe :: "RedisReply \<Rightarrow> bool" where
  "round_trip_safe (REDIS_REPLY_INTEGER i) = (\<bar>sint i\<bar> \<le> 2 ^ 53)"
| "round_trip_safe REDIS_REPLY_NIL = True"
| "round_trip_safe (REDIS_REPLY_STRING s) = True"
| "round_trip_safe (REDIS_REPLY_STATUS s) = line_clean s"
| "round_trip_safe (REDIS_REPLY_ERROR s) = line_clean s"
| "round_trip_safe (REDIS_REPLY_ARRAY es) = list_all round_trip_safe es"

section \<open>The interpreter, the server and a running script\<close>

subsection \<open>Scripts\<close>

text \<open>
  What a registered C function leaves when it is called from a script: the number it
  returns with the values it pushed, or the error object it raised with \<open>lua_error\<close>.
\<close>

datatype call_result = Returned int "lua_value list" | Raised lua_value

text \<open>
  The code of a script is run by the interpreter, which is not part of the repository. A
  script is modelled by what the source can observe of its run: it returns a value (the one
  result \<open>lua_pcall\<close> asks for), it fails with the message \<open>lua_pcall\<close> leaves after the
  error handler ran, it calls one of the registered C functions with some arguments (the
  call carries the debug information \<open>lua_getstack\<close> finds for the caller, a source name
  and a line) and goes on according to the result, or it reaches a checkpoint of the count
  hook (every 100000 instructions) and goes on according to whether the hook raised an
  error. A compiled script reads its inputs from the globals \<open>KEYS\<close> and \<open>ARGV\<close>.
\<close>

datatype script =
    Return lua_value
  | Throw string
  | Invoke cfunction "lua_value list" "(string \<times> int) option" "call_result \<Rightarrow> script"
  | Count "lua_value option \<Rightarrow> script"

type_synonym script_fn = "lua_value \<Rightarrow> lua_value \<Rightarrow> script"

text \<open>
  A global of the interpreter is a value or a function compiled from a script. The result
  of \<open>luaL_loadbuffer\<close> and \<open>lua_pcall\<close> on the text of a function definition: the text
  does not compile, the chunk fails when it runs, or it binds the function.
\<close>

datatype lua_global = GValue lua_value | GFunction script_fn

datatype loaded = LoadError string | RunError string | Defines script_fn

subsection \<open>State\<close>

text \<open>
  The interpreter \<open>m_lua\<close>: its globals, whether the metatable of the globals protection
  is installed, the count of the installed hook, and the number of garbage collection
  steps asked of it.
\<close>

record lua_State =
  globals :: "string \<Rightarrow> lua_global option"
  strict :: bool
  hook :: "nat option"
  gc_steps :: nat

text \<open>The per-connection record \<open>ctx->GetLua()\<close>.\<close>

record LuaContext =
  lua_time_start :: "64 word"
  lua_executing_func :: "string option"
  lua_timeout :: bool
  lua_kill :: bool

datatype warning = Slow_script "string option" "64 word" | Script_killed

text \<open>
  The thread of one connection: its interpreter, its context and the reply buffer of the
  context, the script records and the data of the database, the commands handed to
  \<open>ProcessRedisCommand\<close> so far, the state of the shared generator, and the warnings
  logged by the hook.
\<close>

record ('db, 'rng) server =
  m_lua :: lua_State
  lua_ctx :: LuaContext
  ctx_reply :: RedisReply
  scripts :: "string \<Rightarrow> string option"
  m_db :: 'db
  dispatched :: "string list list"
  rand48 :: 'rng
  warn_log :: "warning list"

record RedisCommandHandlerSetting =
  flags :: int

text \<open>
  What the source uses and the repository's sources do not contain is a parameter of the
  model: the command table and the executor of the server, the digest, the generator of
  \<open>util/rand.h\<close>, the configured time limit, constants of other headers, and the
  interpreter's own doing (compiling a chunk, printing a number, checking an integer
  argument, building its error objects, the globals its libraries bind). The four
  registered functions that touch nothing of the state above (\<open>Log\<close>, \<open>SHA1Hex\<close>,
  \<open>ErrorReplyCommand\<close>, \<open>StatusReplyCommand\<close>) are taken as \<open>other_cfunction\<close>.
  \<open>GetScript\<close> looks a name up in the script records: it is given the records, the
  name and the output string as the caller holds it, and returns its status with the
  output string as it leaves it.
\<close>

record ('db, 'rng) host =
  FindRedisCommandHandlerSetting :: "string \<Rightarrow> RedisCommandHandlerSetting option"
  ARDB_CMD_NOSCRIPT :: int
  ProcessRedisCommand :: "'db \<Rightarrow> string list \<Rightarrow> 'db \<times> RedisReply"
  sha1_sum :: "string \<Rightarrow> string"
  redisSrand48 :: "int \<Rightarrow> 'rng"
  redisLrand48 :: "'rng \<Rightarrow> int \<times> 'rng"
  REDIS_LRAND48_MAX :: int
  lua_time_limit :: "64 word"
  log_levels :: "(string \<times> int) list"
  luaL_loadbuffer :: "string \<Rightarrow> loaded"
  lua_number2str :: "rat \<Rightarrow> string"
  luaL_checkint :: "nat \<Rightarrow> lua_value \<Rightarrow> lua_value + int"
  luaL_argerror :: "nat \<Rightarrow> string \<Rightarrow> lua_value"
  luaL_error :: "string \<Rightarrow> lua_value"
  lua_call_error :: "lua_value \<Rightarrow> string"
  luaopen :: "string \<Rightarrow> lua_global option"
  other_cfunction :: "cfunction \<Rightarrow> lua_value list \<Rightarrow> (string \<times> int) option \<Rightarrow> call_result"
  GetScript :: "(string \<Rightarrow> string option) \<Rightarrow> string \<Rightarrow> string \<Rightarrow> int \<times> string"

text \<open>
  What the thread meets while a script runs: the clock when the run starts and, at the
  \<open>n\<close>-th call of the hook, the clock and the targets of the kill events the service
  loop hands over if the hook lets it continue there.
\<close>

record run_env =
  start_time :: "64 word"
  checkpoints :: "nat \<Rightarrow> 64 word \<times> string list"

subsection \<open>Small helpers of the C library and of the repository\<close>

text \<open>\<open>%d\<close> of \<open>snprintf\<close>.\<close>

fun decimal :: "nat \<Rightarrow> string" where
  "decimal n =
     (if n < 10 then [''0123456789'' ! n]
      else decimal (n div 10) @ [''0123456789'' ! (n mod 10)])"

declare decimal.simps [simp del]

definition show_int :: "int \<Rightarrow> string" where
  "show_int i = (if i < 0 then CHR ''-'' # decimal (nat (- i)) else decimal (nat i))"

definition lower_char :: "char \<Rightarrow> char" where
  "lower_char c =
     (case map_of (zip ''ABCDEFGHIJKLMNOPQRSTUVWXYZ'' ''abcdefghijklmnopqrstuvwxyz'') c of
        None \<Rightarrow> c
      | Some l \<Rightarrow> l)"

text \<open>
  Modelled from the spec: \<open>lower_string\<close> is a utility of the repository that is not among
  the sources; the spec has the bridge lowercase the first argument as the command name.
\<close>

definition lower_string :: "string \<Rightarrow> string" where
  "lower_string s = map lower_char s"

text \<open>\<open>strcasecmp(a, b) == 0\<close> on two C strings.\<close>

definition strcasecmp_eq :: "string \<Rightarrow> string \<Rightarrow> bool" where
  "strcasecmp_eq a b = (map lower_char (c_str a) = map lower_char (c_str b))"

subsection \<open>The globals and their protection\<close>

text \<open>
  The two metamethods that \<open>scriptingEnableGlobalsProtection\<close> installs on the table of
  globals, translated from their Lua text. The interpreter calls \<open>__newindex\<close> on an
  assignment to a global that does not exist and \<open>__index\<close> on a read of one. \<open>frame\<close>
  is what \<open>debug.getinfo(2, "S").what\<close> says of the code that makes the access, and
  \<open>None\<close> when \<open>debug.getinfo(2)\<close> is nil: the access is made through the C API with no
  function running. An error is the pair of arguments given to \<open>error\<close>, the message and
  the level.
\<close>

definition mt_newindex ::
  "string option \<Rightarrow> lua_State \<Rightarrow> string \<Rightarrow> lua_global option \<Rightarrow> (string \<times> nat) + lua_State" where
  "mt_newindex frame L n v =
     (case frame of
        Some w \<Rightarrow>
          if w \<noteq> ''main'' \<and> w \<noteq> ''C''
          then Inl (''Script attempted to create global variable '' @ [CHR 0x27] @ n @ [CHR 0x27], 2)
          else Inr (L\<lparr>globals := (globals L)(n := v)\<rparr>)
      | None \<Rightarrow> Inr (L\<lparr>globals := (globals L)(n := v)\<rparr>))"

definition mt_index ::
  "string option \<Rightarrow> lua_State \<Rightarrow> string \<Rightarrow> (string \<times> nat) + lua_global option" where
  "mt_index frame L n =
     (case frame of
        Some w \<Rightarrow>
          if w \<noteq> ''C''
          then Inl (''Script attempted to access unexisting global variable '' @ [CHR 0x27] @ n @ [CHR 0x27], 1)
          else Inr (globals L n)
      | None \<Rightarrow> Inr (globals L n))"

text \<open>An assignment to a global and a read of a global, by the code of \<open>frame\<close>.\<close>

definition assign_global ::
  "string option \<Rightarrow> string \<Rightarrow> lua_global option \<Rightarrow> lua_State \<Rightarrow> (string \<times> nat) + lua_State" where
  "assign_global frame n v L =
     (if strict L \<and> globals L n = None then mt_newindex frame L n v
      else Inr (L\<lparr>globals := (globals L)(n := v)\<rparr>))"

definition read_global ::
  "string option \<Rightarrow> string \<Rightarrow> lua_State \<Rightarrow> (string \<times> nat) + lua_global option" where
  "read_global frame n L =
     (if strict L \<and> globals L n = None then mt_index frame L n else Inr (globals L n))"

text \<open>
  \<open>lua_setglobal\<close> and \<open>lua_getglobal\<close> as the source calls them: from C, with no Lua
  function running.
\<close>

definition lua_setglobal :: "string \<Rightarrow> lua_global option \<Rightarrow> lua_State \<Rightarrow> lua_State" where
  "lua_setglobal n v L = (case assign_global None n v L of Inr L' \<Rightarrow> L' | Inl e \<Rightarrow> L)"

definition lua_getglobal :: "string \<Rightarrow> lua_State \<Rightarrow> lua_global option" where
  "lua_getglobal n L = (case read_global None n L of Inr g \<Rightarrow> g | Inl e \<Rightarrow> None)"

definition luaSetGlobalArray :: "string \<Rightarrow> string list \<Rightarrow> lua_State \<Rightarrow> lua_State" where
  "luaSetGlobalArray var elev L =
     lua_setglobal var (Some (GValue (LTable (push_elements 0 (map LStr elev) [])))) L"

subsection \<open>\<open>Init\<close>\<close>

definition lua_open :: lua_State where
  "lua_open = \<lparr>globals = (\<lambda>n. None), strict = False, hook = None, gc_steps = 0\<rparr>"

definition LoadLibs :: "('db, 'rng) host \<Rightarrow> lua_State \<Rightarrow> lua_State" where
  "LoadLibs h L = L\<lparr>globals := luaopen h\<rparr>"

definition RemoveUnsupportedFunctions :: "lua_State \<Rightarrow> lua_State" where
  "RemoveUnsupportedFunctions L = lua_setglobal ''loadfile'' None L"

text \<open>The table registered as \<open>redis\<close> and as \<open>ardb\<close>, in the order the fields are set.\<close>

definition level_number :: "('db, 'rng) host \<Rightarrow> string \<Rightarrow> lua_value" where
  "level_number h l = (case map_of (log_levels h) l of None \<Rightarrow> LNil | Some i \<Rightarrow> LNum (of_int i))"

definition redis_table :: "('db, 'rng) host \<Rightarrow> lua_table" where
  "redis_table h =
     foldl (\<lambda>t (k, v). lua_settable t (KStr k) v) []
       [(''call'', LCFunction Fn_Call),
        (''pcall'', LCFunction Fn_PCall),
        (''log'', LCFunction Fn_Log),
        (''LOG_DEBUG'', level_number h ''DEBUG_LOG_LEVEL''),
        (''LOG_VERBOSE'', level_number h ''TRACE_LOG_LEVEL''),
        (''LOG_NOTICE'', level_number h ''INFO_LOG_LEVEL''),
        (''LOG_WARNING'', level_number h ''WARN_LOG_LEVEL''),
        (''sha1hex'', LCFunction Fn_SHA1Hex),
        (''error_reply'', LCFunction Fn_ErrorReplyCommand),
        (''status_reply'', LCFunction Fn_StatusReplyCommand)]"

definition register_redis :: "('db, 'rng) host \<Rightarrow> lua_State \<Rightarrow> lua_State" where
  "register_redis h L =
     (let L1 = lua_setglobal ''redis'' (Some (GValue (LTable (redis_table h)))) L
      in lua_setglobal ''ardb'' (lua_getglobal ''redis'' L1) L1)"

definition replace_math_random :: "lua_State \<Rightarrow> lua_State" where
  "replace_math_random L =
     (let t = (case lua_getglobal ''math'' L of Some (GValue (LTable t)) \<Rightarrow> t | _ \<Rightarrow> []);
          t1 = lua_settable t (KStr ''random'') (LCFunction Fn_MathRandom);
          t2 = lua_settable t1 (KStr ''randomseed'') (LCFunction Fn_MathRandomSeed)
      in lua_setglobal ''math'' (Some (GValue (LTable t2))) L)"

definition define_err_handler :: "lua_State \<Rightarrow> lua_State" where
  "define_err_handler L = lua_setglobal ''__redis__err__handler'' (Some (GValue LOpaque)) L"

definition scriptingEnableGlobalsProtection :: "lua_State \<Rightarrow> lua_State" where
  "scriptingEnableGlobalsProtection L = L\<lparr>strict := True\<rparr>"

definition Init :: "('db, 'rng) host \<Rightarrow> lua_State" where
  "Init h =
     scriptingEnableGlobalsProtection
       (define_err_handler
         (replace_math_random
           (register_redis h
             (RemoveUnsupportedFunctions
               (LoadLibs h lua_open)))))"

subsection \<open>The command bridge\<close>

definition luaPushError :: "(string \<times> int) option \<Rightarrow> string \<Rightarrow> lua_value" where
  "luaPushError dbg msg =
     LTable (lua_settable [] (KStr ''err'')
       (LStr (case dbg of
                Some (source, currentline) \<Rightarrow>
                  take 1022 (source @ '': '' @ show_int currentline @ '': '' @ msg)
              | None \<Rightarrow> msg)))"

definition lua_isstring :: "lua_value \<Rightarrow> bool" where
  "lua_isstring v = (lua_type v = LUA_TSTRING \<or> lua_type v = LUA_TNUMBER)"

definition lua_tolstring :: "('db, 'rng) host \<Rightarrow> lua_value \<Rightarrow> string" where
  "lua_tolstring h v = (case v of LStr s \<Rightarrow> s | LNum x \<Rightarrow> lua_number2str h x | _ \<Rightarrow> [])"

text \<open>
  Modelled from the spec: the class \<open>RedisCommandFrame\<close> is not among the sources. A frame
  built from the argument vector has the first argument as its command, which
  \<open>lower_string\<close> then lowercases in place.
\<close>

definition RedisCommandFrame :: "string list \<Rightarrow> string list" where
  "RedisCommandFrame cmdargs = lower_string (hd cmdargs) # tl cmdargs"

definition GetCommand :: "string list \<Rightarrow> string" where
  "GetCommand cmd = hd cmd"

fun is_error_reply :: "RedisReply \<Rightarrow> bool" where
  "is_error_reply (REDIS_REPLY_ERROR e) = True"
| "is_error_reply r = False"

fun lua_getfield :: "lua_value \<Rightarrow> string \<Rightarrow> lua_value" where
  "lua_getfield (LTable t) f = lua_gettable t (KStr f)"
| "lua_getfield v f = LNil"

definition CallArdb ::
  "('db, 'rng) host \<Rightarrow> lua_value list \<Rightarrow> (string \<times> int) option \<Rightarrow> bool \<Rightarrow>
     ('db, 'rng) server \<Rightarrow> ('db, 'rng) server \<times> call_result" where
  "CallArdb h stack dbg raise_error s =
     (if length stack = 0
      then (s, Returned 1 [luaPushError dbg ''Please specify at least one argument for redis.call()''])
      else
        let cmdargs = map (lua_tolstring h) (takeWhile lua_isstring stack) in
        if length cmdargs \<noteq> length stack
        then (s, Returned 1
                [luaPushError dbg ''Lua redis() command arguments must be strings or integers''])
        else
          let cmd = RedisCommandFrame cmdargs in
          case FindRedisCommandHandlerSetting h (GetCommand cmd) of
            None \<Rightarrow>
              (s, Returned (- 1) [luaPushError dbg ''Unknown Redis command called from Lua script''])
          | Some setting \<Rightarrow>
              if flags setting AND ARDB_CMD_NOSCRIPT h \<noteq> 0
              then (s, Returned (- 1)
                      [luaPushError dbg ''This Redis command is not allowed from scripts''])
              else
                let (db', reply) = ProcessRedisCommand h (m_db s) cmd;
                    s' = s\<lparr>m_db := db', ctx_reply := reply, dispatched := dispatched s @ [cmd]\<rparr>;
                    v = redisProtocolToLuaType reply
                in if raise_error \<and> is_error_reply reply
                   then (s', Raised (lua_getfield v ''err''))
                   else (s', Returned 1 [v]))"

definition PCall ::
  "('db, 'rng) host \<Rightarrow> lua_value list \<Rightarrow> (string \<times> int) option \<Rightarrow>
     ('db, 'rng) server \<Rightarrow> ('db, 'rng) server \<times> call_result" where
  "PCall h stack dbg s = CallArdb h stack dbg True s"

definition Call ::
  "('db, 'rng) host \<Rightarrow> lua_value list \<Rightarrow> (string \<times> int) option \<Rightarrow>
     ('db, 'rng) server \<Rightarrow> ('db, 'rng) server \<times> call_result" where
  "Call h stack dbg s = CallArdb h stack dbg False s"

subsection \<open>The generator\<close>

text \<open>
  The arithmetic on doubles is done on their exact values (the rounding of the quotient
  and of the product is left out), and the subtraction of the two \<open>int\<close> bounds is done on
  integers.
\<close>

definition MathRandom ::
  "('db, 'rng) host \<Rightarrow> lua_value list \<Rightarrow> ('db, 'rng) server \<Rightarrow> ('db, 'rng) server \<times> call_result" where
  "MathRandom h stack s =
     (let (x, g) = redisLrand48 h (rand48 s);
          r = (of_int (x mod REDIS_LRAND48_MAX h) / of_int (REDIS_LRAND48_MAX h) :: rat);
          s' = s\<lparr>rand48 := g\<rparr>
      in case stack of
           [] \<Rightarrow> (s', Returned 1 [LNum r])
         | [a] \<Rightarrow>
             (case luaL_checkint h 1 a of
                Inl e \<Rightarrow> (s', Raised e)
              | Inr u \<Rightarrow>
                  if 1 \<le> u then (s', Returned 1 [LNum (of_int (\<lfloor>r * of_int u\<rfloor> + 1))])
                  else (s', Raised (luaL_argerror h 1 ''interval is empty'')))
         | [a, b] \<Rightarrow>
             (case luaL_checkint h 1 a of
                Inl e \<Rightarrow> (s', Raised e)
              | Inr l \<Rightarrow>
                  (case luaL_checkint h 2 b of
                     Inl e \<Rightarrow> (s', Raised e)
                   | Inr u \<Rightarrow>
                       if l \<le> u
                       then (s', Returned 1 [LNum (of_int (\<lfloor>r * of_int (u - l + 1)\<rfloor> + l))])
                       else (s', Raised (luaL_argerror h 2 ''interval is empty''))))
         | _ \<Rightarrow> (s', Raised (luaL_error h ''wrong number of arguments'')))"

definition MathRandomSeed ::
  "('db, 'rng) host \<Rightarrow> lua_value list \<Rightarrow> ('db, 'rng) server \<Rightarrow> ('db, 'rng) server \<times> call_result" where
  "MathRandomSeed h stack s =
     (case luaL_checkint h 1 (case stack of [] \<Rightarrow> LNil | a # _ \<Rightarrow> a) of
        Inl e \<Rightarrow> (s, Raised e)
      | Inr n \<Rightarrow> (s\<lparr>rand48 := redisSrand48 h n\<rparr>, Returned 0 []))"

text \<open>The function behind a registered function pointer.\<close>

definition invoke ::
  "('db, 'rng) host \<Rightarrow> cfunction \<Rightarrow> lua_value list \<Rightarrow> (string \<times> int) option \<Rightarrow>
     ('db, 'rng) server \<Rightarrow> ('db, 'rng) server \<times> call_result" where
  "invoke h f stack dbg s =
     (case f of
        Fn_Call \<Rightarrow> Call h stack dbg s
      | Fn_PCall \<Rightarrow> PCall h stack dbg s
      | Fn_MathRandom \<Rightarrow> MathRandom h stack s
      | Fn_MathRandomSeed \<Rightarrow> MathRandomSeed h stack s
      | _ \<Rightarrow> (s, other_cfunction h f stack dbg))"

subsection \<open>The cancellation controller\<close>

datatype event = SCRIPT_FLUSH_EVENT | SCRIPT_KILL_EVENT | OTHER_EVENT

text \<open>
  Modelled from the spec: \<open>FlushScripts\<close> of the script store is not among the sources;
  the spec has it clear the store.
\<close>

definition FlushScripts :: "('db, 'rng) server \<Rightarrow> ('db, 'rng) server" where
  "FlushScripts s = s\<lparr>scripts := (\<lambda>n. None)\<rparr>"

definition Reset :: "('db, 'rng) host \<Rightarrow> ('db, 'rng) server \<Rightarrow> ('db, 'rng) server" where
  "Reset h s = s\<lparr>m_lua := Init h\<rparr>"

text \<open>
  The callback on the thread of a connection (the thread has a context); \<open>killing\<close> is the
  static \<open>m_killing_func\<close> when the event arrives.
\<close>

definition ScriptEventCallback ::
  "('db, 'rng) host \<Rightarrow> event \<Rightarrow> string \<Rightarrow> ('db, 'rng) server \<Rightarrow> ('db, 'rng) server" where
  "ScriptEventCallback h ev killing s =
     (case ev of
        SCRIPT_FLUSH_EVENT \<Rightarrow> FlushScripts (Reset h s)
      | SCRIPT_KILL_EVENT \<Rightarrow>
          (case lua_executing_func (lua_ctx s) of
             None \<Rightarrow> s
           | Some f \<Rightarrow>
               if strcasecmp_eq killing ''all'' \<or> strcasecmp_eq killing f
               then s\<lparr>lua_ctx := (lua_ctx s)\<lparr>lua_kill := True\<rparr>\<rparr>
               else s)
      | OTHER_EVENT \<Rightarrow> s)"

text \<open>
  \<open>targets killing running\<close>: a kill event with the target \<open>killing\<close> is meant for a
  thread that runs the function \<open>running\<close>. It is the condition of the callback above.
\<close>

definition targets :: "string \<Rightarrow> string option \<Rightarrow> bool" where
  "targets killing running =
     (case running of
        None \<Rightarrow> False
      | Some f \<Rightarrow> strcasecmp_eq killing ''all'' \<or> strcasecmp_eq killing f)"

text \<open>
  \<open>Continue\<close> lets the service loop of the thread run once. Of what the loop does there
  the model has the kill events it delivers to \<open>ScriptEventCallback\<close>.
\<close>

definition Continue ::
  "('db, 'rng) host \<Rightarrow> string list \<Rightarrow> ('db, 'rng) server \<Rightarrow> ('db, 'rng) server" where
  "Continue h deliveries s = foldl (\<lambda>s killing. ScriptEventCallback h SCRIPT_KILL_EVENT killing s) s deliveries"

definition MaskCountHook ::
  "('db, 'rng) host \<Rightarrow> 64 word \<Rightarrow> string list \<Rightarrow> ('db, 'rng) server \<Rightarrow>
     ('db, 'rng) server \<times> lua_value option" where
  "MaskCountHook h now deliveries s =
     (let elapsed = now - lua_time_start (lua_ctx s);
          s1 = (if lua_time_limit h \<le> elapsed \<and> \<not> lua_timeout (lua_ctx s)
                then s\<lparr>warn_log := warn_log s @ [Slow_script (lua_executing_func (lua_ctx s)) elapsed],
                       lua_ctx := (lua_ctx s)\<lparr>lua_timeout := True\<rparr>\<rparr>
                else s);
          s2 = (if lua_timeout (lua_ctx s1) then Continue h deliveries s1 else s1)
      in if lua_kill (lua_ctx s2)
         then (s2\<lparr>warn_log := warn_log s2 @ [Script_killed]\<rparr>,
               Some (LStr ''Script killed by user with SCRIPT KILL...''))
         else (s2, None))"

subsection \<open>Running a script\<close>

primrec run ::
  "('db, 'rng) host \<Rightarrow> (nat \<Rightarrow> 64 word \<times> string list) \<Rightarrow> script \<Rightarrow> nat \<Rightarrow>
     ('db, 'rng) server \<Rightarrow> ('db, 'rng) server \<times> (string + lua_value)" where
  "run h cp (Return v) n s = (s, Inr v)"
| "run h cp (Throw m) n s = (s, Inl m)"
| "run h cp (Invoke f stack dbg k) n s =
     (case invoke h f stack dbg s of (s', r) \<Rightarrow> run h cp (k r) n s')"
| "run h cp (Count k) n s =
     (case hook (m_lua s) of
        None \<Rightarrow> run h cp (k None) n s
      | Some c \<Rightarrow>
          (case MaskCountHook h (fst (cp n)) (snd (cp n)) s of (s', r) \<Rightarrow> run h cp (k r) (Suc n) s'))"

definition lua_pcall ::
  "('db, 'rng) host \<Rightarrow> run_env \<Rightarrow> lua_global option \<Rightarrow> lua_value \<Rightarrow> lua_value \<Rightarrow>
     ('db, 'rng) server \<Rightarrow> ('db, 'rng) server \<times> (string + lua_value)" where
  "lua_pcall h env f KEYS ARGV s =
     (case f of
        Some (GFunction fn) \<Rightarrow> run h (checkpoints env) (fn KEYS ARGV) 0 s
      | Some (GValue v) \<Rightarrow> (s, Inl (lua_call_error h v))
      | None \<Rightarrow> (s, Inl (lua_call_error h LNil)))"

subsection \<open>The script cache\<close>

text \<open>
  Modelled from the spec: \<open>SaveScript\<close> of the database is not among the sources. The
  spec has the store keep the body under the name.
\<close>

definition SaveScript :: "string \<Rightarrow> string \<Rightarrow> ('db, 'rng) server \<Rightarrow> ('db, 'rng) server" where
  "SaveScript funcname body s = s\<lparr>scripts := (scripts s)(funcname \<mapsto> body)\<rparr>"

text \<open>
  The chunk of a function definition runs as a main chunk and assigns the function to the
  global of its name.
\<close>

definition CreateLuaFunction ::
  "('db, 'rng) host \<Rightarrow> string \<Rightarrow> string \<Rightarrow> string \<Rightarrow> ('db, 'rng) server \<Rightarrow>
     ('db, 'rng) server \<times> string \<times> int" where
  "CreateLuaFunction h funcname body err s =
     (let funcdef = ''function '' @ funcname @ ''() '' @ body @ '' end'' in
      case luaL_loadbuffer h funcdef of
        LoadError m \<Rightarrow>
          (s, err @ ''Error compiling script (new function): '' @ c_str m @ [CHR 0x0A], - 1)
      | RunError m \<Rightarrow>
          (s, err @ ''Error running script (new function): '' @ c_str m @ [CHR 0x0A], - 1)
      | Defines fn \<Rightarrow>
          (case assign_global (Some ''main'') funcname (Some (GFunction fn)) (m_lua s) of
             Inl (m, level) \<Rightarrow>
               (s, err @ ''Error running script (new function): '' @ c_str m @ [CHR 0x0A], - 1)
           | Inr L \<Rightarrow> (SaveScript funcname body (s\<lparr>m_lua := L\<rparr>), err, 0)))"

definition Exists :: "('db, 'rng) host \<Rightarrow> ('db, 'rng) server \<Rightarrow> string \<Rightarrow> bool" where
  "Exists h s sha = (fst (GetScript h (scripts s) (''f_'' @ sha) []) = 0)"

definition Load ::
  "('db, 'rng) host \<Rightarrow> string \<Rightarrow> ('db, 'rng) server \<Rightarrow> ('db, 'rng) server \<times> string \<times> int" where
  "Load h func s =
     (let ret = sha1_sum h func;
          funcname = ''f_'' @ ret
      in case CreateLuaFunction h funcname func ret s of
           (s', ret', rc) \<Rightarrow> (s', ret', if rc = 0 then 1 else 0))"

subsection \<open>\<open>Eval\<close>\<close>

definition NOSCRIPT :: RedisReply where
  "NOSCRIPT = REDIS_REPLY_ERROR ''-NOSCRIPT No matching script. Please use EVAL.''"

text \<open>
  The second half of \<open>Eval\<close>, from the binding of \<open>KEYS\<close> and \<open>ARGV\<close> on; \<open>f\<close> is the
  function \<open>lua_getglobal\<close> has put on the stack. (The context of the thread is taken to
  exist: the source reads it without a check.) Where the source passes \<open>funcname.c_str()\<close>
  or prints with \<open>%s\<close>, the string ends at its first byte 0.
\<close>

definition Eval_call ::
  "('db, 'rng) host \<Rightarrow> run_env \<Rightarrow> string \<Rightarrow> lua_global option \<Rightarrow> string list \<Rightarrow> string list \<Rightarrow>
     ('db, 'rng) server \<Rightarrow> ('db, 'rng) server \<times> RedisReply option \<times> int" where
  "Eval_call h env funcname f keys args s =
     (let L1 = luaSetGlobalArray ''ARGV'' args (luaSetGlobalArray ''KEYS'' keys (m_lua s));
          delhook = (0 < sint (lua_time_limit h));
          L2 = (if delhook then L1\<lparr>hook := Some 100000\<rparr> else L1);
          s1 = s\<lparr>m_lua := L2,
                 lua_ctx := (lua_ctx s)\<lparr>lua_time_start := start_time env,
                                        lua_executing_func := Some (drop 2 (c_str funcname)),
                                        lua_kill := False\<rparr>\<rparr>
      in case lua_pcall h env f
                (LTable (push_elements 0 (map LStr keys) []))
                (LTable (push_elements 0 (map LStr args) [])) s1 of
           (s2, errid) \<Rightarrow>
             let c1 = (lua_ctx s2)\<lparr>lua_executing_func := None\<rparr>;
                 L3 = (if delhook then (m_lua s2)\<lparr>hook := None\<rparr> else m_lua s2);
                 c2 = (if lua_timeout c1 then c1\<lparr>lua_timeout := False\<rparr> else c1);
                 L4 = L3\<lparr>gc_steps := gc_steps L3 + 1\<rparr>;
                 s3 = s2\<lparr>m_lua := L4, lua_ctx := c2\<rparr>
             in (case errid of
                  Inl msg \<Rightarrow>
                    (s3,
                     Some (REDIS_REPLY_ERROR
                       (take 1022 (''Error running script (call to '' @ c_str funcname @ ''): ''
                          @ c_str msg @ [CHR 0x0A]))),
                     0)
                | Inr v \<Rightarrow> (s3, luaReplyToRedisReply v, 0)))"

definition Eval ::
  "('db, 'rng) host \<Rightarrow> run_env \<Rightarrow> string \<Rightarrow> string list \<Rightarrow> string list \<Rightarrow> bool \<Rightarrow>
     ('db, 'rng) server \<Rightarrow> ('db, 'rng) server \<times> RedisReply option \<times> int" where
  "Eval h env func keys args isSHA1Func s0 =
     (let s = s0\<lparr>rand48 := redisSrand48 h 0\<rparr> in
      if isSHA1Func \<and> length func \<noteq> 40 then (s, Some NOSCRIPT, - 1)
      else
        let funcname = ''f_'' @ (if isSHA1Func then func else sha1_sum h func) in
        case lua_getglobal (c_str funcname) (m_lua s) of
          Some f \<Rightarrow> Eval_call h env funcname (Some f) keys args s
        | None \<Rightarrow>
            if isSHA1Func \<and> fst (GetScript h (scripts s) funcname []) = 0
            then (s, Some NOSCRIPT, - 1)
            else
              let funptr = (if isSHA1Func then snd (GetScript h (scripts s) funcname []) else func) in
              case CreateLuaFunction h funcname funptr [] s of
                (s1, err, rc) \<Rightarrow>
                  if rc \<noteq> 0 then (s1, Some (REDIS_REPLY_ERROR err), - 1)
                  else Eval_call h env funcname (lua_getglobal (c_str funcname) (m_lua s1))
                         keys args s1)"

subsection \<open>An example server\<close>

text \<open>
  A small instance of the parameters, on which the theorems below are tried: a store of
  keys and values with the commands \<open>set\<close> and \<open>get\<close>, a command \<open>eval\<close> that is not
  allowed in scripts, a linear congruential generator, a script store whose lookup answers
  \<open>0\<close> when it finds the name, the digests of six bodies, and an interpreter that knows
  five of them: the empty one, one that returns a random number, one that passes \<open>KEYS\<close>
  to \<open>redis.call\<close> or to \<open>redis.pcall\<close>, and one that runs through three checkpoints
  of the hook.
\<close>

definition example_ProcessRedisCommand ::
  "(string \<times> string) list \<Rightarrow> string list \<Rightarrow> (string \<times> string) list \<times> RedisReply" where
  "example_ProcessRedisCommand db cmd =
     (if hd cmd = ''set'' \<and> length cmd = 3
      then ((cmd ! 1, cmd ! 2) # db, REDIS_REPLY_STATUS ''OK'')
      else if hd cmd = ''get'' \<and> length cmd = 2
      then (db, case map_of db (cmd ! 1) of None \<Rightarrow> REDIS_REPLY_NIL | Some v \<Rightarrow> REDIS_REPLY_STRING v)
      else (db, REDIS_REPLY_ERROR ''ERR wrong number of arguments''))"

definition example_result :: "call_result \<Rightarrow> script" where
  "example_result r =
     (case r of
        Returned n vs \<Rightarrow> Return (case vs of [] \<Rightarrow> LNil | v # _ \<Rightarrow> v)
      | Raised e \<Rightarrow> Throw (lua_tostring e))"

definition example_checkpoint :: "script \<Rightarrow> script" where
  "example_checkpoint rest =
     Count (\<lambda>r. case r of None \<Rightarrow> rest | Some e \<Rightarrow> Throw (lua_tostring e))"

definition example_elements :: "lua_value \<Rightarrow> lua_value list" where
  "example_elements v = (case v of LTable t \<Rightarrow> map snd t | _ \<Rightarrow> [])"

definition example_loop_body :: string where
  "example_loop_body = ''while ARGV[1] do ARGV[1] = ARGV[2] ARGV[2] = ARGV[3] ARGV[3] = nil end''"

definition example_scripts :: "(string \<times> script_fn) list" where
  "example_scripts =
     [([], \<lambda>KEYS ARGV. Return LNil),
      (''return math.random(10)'',
         \<lambda>KEYS ARGV. Invoke Fn_MathRandom [LNum 10] None example_result),
      (''return redis.call(unpack(KEYS))'',
         \<lambda>KEYS ARGV. Invoke Fn_Call (example_elements KEYS) None example_result),
      (''return redis.pcall(unpack(KEYS))'',
         \<lambda>KEYS ARGV. Invoke Fn_PCall (example_elements KEYS) None example_result),
      (example_loop_body,
         \<lambda>KEYS ARGV. example_checkpoint (example_checkpoint (example_checkpoint (Return LNil))))]"

text \<open>
  The text of a definition is \<open>function f_\<close>, forty characters, \<open>() \<close>, the body and
  \<open> end\<close>: the body starts at the 55th character.
\<close>

definition example_loadbuffer :: "string \<Rightarrow> loaded" where
  "example_loadbuffer funcdef =
     (case map_of example_scripts (take (length funcdef - 58) (drop 54 funcdef)) of
        Some fn \<Rightarrow> Defines fn
      | None \<Rightarrow> LoadError ''unexpected symbol'')"

definition example_sha1_sum :: "string \<Rightarrow> string" where
  "example_sha1_sum s =
     (case map_of
        [([], ''da39a3ee5e6b4b0d3255bfef95601890afd80709''),
         (''return math.random(10)'', ''b1deeb5a70c8a7bef615d7fcb572c8472c371134''),
         (''return redis.call(unpack(KEYS))'', ''4c5e52f90e78baf211b67ece2c4779c1159af810''),
         (''return redis.pcall(unpack(KEYS))'', ''9f03032c3511419601c894be8369ee2ff3a28277''),
         (example_loop_body, ''c1ae5a21a6594fea5f19488e7a2cfb995b5e9ed9''),
         (''('', ''28ed3a797da3c48c309a4ef792147f3c56cfec40'')] s of
        Some d \<Rightarrow> d
      | None \<Rightarrow> ''0000000000000000000000000000000000000000'')"

definition example_host :: "((string \<times> string) list, int) host" where
  "example_host =
     \<lparr>FindRedisCommandHandlerSetting =
        map_of [(''set'', \<lparr>flags = 0\<rparr>), (''get'', \<lparr>flags = 1\<rparr>), (''eval'', \<lparr>flags = 5\<rparr>)],
      ARDB_CMD_NOSCRIPT = 4,
      ProcessRedisCommand = example_ProcessRedisCommand,
      sha1_sum = example_sha1_sum,
      redisSrand48 = (\<lambda>seed. seed * 65536 + 13070),
      redisLrand48 = (\<lambda>x. ((x * 25214903917 + 11) mod 2 ^ 48 div 2 ^ 17,
                              (x * 25214903917 + 11) mod 2 ^ 48)),
      REDIS_LRAND48_MAX = 2147483648,
      lua_time_limit = 5000,
      log_levels = [(''DEBUG_LOG_LEVEL'', 5), (''TRACE_LOG_LEVEL'', 6), (''INFO_LOG_LEVEL'', 4),
                    (''WARN_LOG_LEVEL'', 3)],
      luaL_loadbuffer = example_loadbuffer,
      lua_number2str = (\<lambda>x. show_int \<lfloor>x\<rfloor>),
      luaL_checkint = (\<lambda>n v. case v of LNum x \<Rightarrow> Inr \<lfloor>x\<rfloor> | _ \<Rightarrow> Inl (LStr ''number expected'')),
      luaL_argerror = (\<lambda>n m. LStr m),
      luaL_error = (\<lambda>m. LStr m),
      lua_call_error = (\<lambda>v. ''attempt to call a value that is not a function''),
      luaopen = map_of [(''math'', GValue (LTable [(KStr ''pi'', LNum (355 / 113))])),
                        (''loadfile'', GValue LOpaque), (''loadstring'', GValue LOpaque)],
      other_cfunction = (\<lambda>f stack dbg. Returned 0 []),
      GetScript = (\<lambda>records funcname funcbody.
                     case records funcname of None \<Rightarrow> (- 1, funcbody) | Some body \<Rightarrow> (0, body))\<rparr>"

definition example_server :: "((string \<times> string) list, int) server" where
  "example_server =
     \<lparr>m_lua = Init example_host,
      lua_ctx = \<lparr>lua_time_start = 0, lua_executing_func = None, lua_timeout = False,
                 lua_kill = False\<rparr>,
      ctx_reply = REDIS_REPLY_NIL,
      scripts = (\<lambda>n. None),
      m_db = [],
      dispatched = [],
      rand48 = 7,
      warn_log = []\<rparr>"

text \<open>
  A run that starts at time 1000 and whose hook is called at the times 2000, 7000 and
  8000; at the third call the service loop delivers a kill event for all scripts.
\<close>

definition example_env :: run_env where
  "example_env =
     \<lparr>start_time = 1000,
      checkpoints = (\<lambda>n. if n = 0 then (2000, []) else if n = 1 then (7000, [])
                           else (8000, [''ALL'']))\<rparr>"

text \<open>The example server in the middle of a run that started at time 1000.\<close>

definition example_running :: "((string \<times> string) list, int) server" where
  "example_running =
     example_server\<lparr>lua_ctx := \<lparr>lua_time_start = 1000,
                                  lua_executing_func = Some ''c1ae5a21a6594fea5f19488e7a2cfb995b5e9ed9'',
                                  lua_timeout = False, lua_kill = False\<rparr>\<rparr>"

section \<open>The value marshaler\<close>

subsection \<open>The array loop reads the sequence part\<close>

lemma present_bound:
  assumes "\<And>i. 1 \<le> i \<Longrightarrow> i < j \<Longrightarrow> lua_gettable t (KNum (of_nat i)) \<noteq> LNil"
  shows "j \<le> length t + 1"
proof -
  let ?f = "\<lambda>i::nat. KNum (of_nat i)"
  have sub: "?f ` {1..<j} \<subseteq> fst ` set t"
  proof
    fix k assume "k \<in> ?f ` {1..<j}"
    then obtain i where i: "1 \<le> i" "i < j" and k: "k = ?f i" by auto
    from assms [OF i] have "map_of t k \<noteq> None"
      by (auto simp: lua_gettable_def k split: option.splits)
    then show "k \<in> fst ` set t"
      by (simp add: map_of_eq_None_iff)
  qed
  have "inj_on ?f {1..<j}"
    by (auto simp: inj_on_def)
  then have "card (?f ` {1..<j}) = j - 1"
    by (simp add: card_image)
  moreover have "card (?f ` {1..<j}) \<le> card (fst ` set t)"
    using sub by (intro card_mono) auto
  moreover have "card (fst ` set t) \<le> length t"
    by (metis card_image_le card_length le_trans List.finite_set)
  ultimately show ?thesis by linarith
qed

lemma array_loop_takeWhile:
  assumes "N = length t + 2" and "1 \<le> j"
    and "\<And>i. 1 \<le> i \<Longrightarrow> i < j \<Longrightarrow> lua_gettable t (KNum (of_nat i)) \<noteq> LNil"
  shows "array_loop t j =
     those (map luaReplyToRedisReply
       (takeWhile (\<lambda>v. v \<noteq> LNil) (map (\<lambda>i. lua_gettable t (KNum (of_nat i))) [j ..< N])))"
  using assms(2,3)
proof (induction "N - j" arbitrary: j)
  case 0
  have "j \<le> length t + 1"
    by (rule present_bound) (rule "0.prems"(2))
  with "0.hyps" assms(1) show ?case by linarith
next
  case (Suc n)
  have "j \<le> length t + 1"
    by (rule present_bound) (rule Suc.prems(2))
  with assms(1) have j: "j < N" by simp
  then have upt: "[j ..< N] = j # [Suc j ..< N]"
    by (simp add: upt_conv_Cons)
  show ?case
  proof (cases "lua_gettable t (KNum (of_nat j)) = LNil")
    case True
    then show ?thesis
      by (subst array_loop.simps) (simp add: upt)
  next
    case False
    then have ty: "lua_type (lua_gettable t (KNum (of_nat j))) \<noteq> LUA_TNIL"
      by (cases "lua_gettable t (KNum (of_nat j))") auto
    have "\<And>i. 1 \<le> i \<Longrightarrow> i < Suc j \<Longrightarrow> lua_gettable t (KNum (of_nat i)) \<noteq> LNil"
      using Suc.prems(2) False by (metis less_Suc_eq)
    moreover have "n = N - Suc j" using Suc.hyps(2) by simp
    ultimately have IH: "array_loop t (Suc j) =
       those (map luaReplyToRedisReply
         (takeWhile (\<lambda>v. v \<noteq> LNil)
           (map (\<lambda>i. lua_gettable t (KNum (of_nat i))) [Suc j ..< N])))"
      using Suc.hyps(1) [of "Suc j"] by simp
    show ?thesis
      by (subst array_loop.simps) (simp add: upt False ty IH split: option.splits)
  qed
qed

lemma array_loop_sequence_part:
  "array_loop t 1 = those (map luaReplyToRedisReply (sequence_part t))"
  unfolding sequence_part_def by (rule array_loop_takeWhile) auto

lemma to_long_long_integer_reply:
  "map_option REDIS_REPLY_INTEGER (to_long_long x) = integer_reply (truncate_toward_zero x)"
  by (simp add: to_long_long_def integer_reply_def Let_def)




subsection \<open>The round trip\<close>

lemma string_replace_absent:
  "\<not> occurs pat s \<Longrightarrow> string_replace s pat new = s"
proof (induction s)
  case Nil
  show ?case by (subst string_replace.simps) simp
next
  case (Cons c cs)
  then show ?case by (subst string_replace.simps) simp
qed

lemma c_str_no_NUL: "CHR 0x00 \<notin> set s \<Longrightarrow> c_str s = s"
  by (auto simp: c_str_def takeWhile_eq_all_conv)

lemma line_clean_survives:
  "line_clean s \<Longrightarrow> string_replace (c_str s) CRLF '' '' = s"
  by (simp add: line_clean_def c_str_no_NUL string_replace_absent)

lemma excess_bits_small: "a < 2 ^ 53 \<Longrightarrow> excess_bits a = 0"
  by (subst excess_bits.simps) simp

lemma excess_bits_2_53: "excess_bits 9007199254740992 = Suc 0"
  by (subst excess_bits.simps) (simp add: excess_bits_small)

lemma round_binary64_exact:
  assumes "\<bar>z\<bar> \<le> 2 ^ 53"
  shows "round_binary64 z = z"
proof (cases "nat \<bar>z\<bar> < 2 ^ 53")
  case True
  then have "excess_bits (nat \<bar>z\<bar>) = 0" by (rule excess_bits_small)
  then show ?thesis
    by (simp add: round_binary64_def Let_def mult_sgn_abs)
next
  case False
  from assms have "nat \<bar>z\<bar> \<le> 2 ^ 53" by simp
  with False have a: "nat \<bar>z\<bar> = 2 ^ 53" by simp
  then have abs: "\<bar>z\<bar> = 2 ^ 53" by simp
  have "sgn z * 2 ^ 53 = z"
    using mult_sgn_abs [of z] abs by simp
  then show ?thesis
    by (simp add: round_binary64_def Let_def a excess_bits_2_53)
qed

lemma to_long_long_of_int:
  "- (2 ^ 63) \<le> z \<Longrightarrow> z < 2 ^ 63 \<Longrightarrow> to_long_long (of_int z) = Some (word_of_int z)"
  by (simp add: to_long_long_def truncate_toward_zero_def)

lemma integer_round_trip:
  assumes "\<bar>sint i\<bar> \<le> 2 ^ 53"
  shows "to_long_long (to_lua_Number i) = Some i"
proof -
  have "- (2 ^ 63) \<le> sint i" and "sint i < 2 ^ 63"
    using sint_ge [of i] sint_lt [of i] by simp_all
  then have "to_long_long (of_int (sint i)) = Some (word_of_int (sint i))"
    by (rule to_long_long_of_int)
  with assms show ?thesis by (simp add: to_lua_Number_def round_binary64_exact)
qed

lemma redisProtocolToLuaType_not_nil: "redisProtocolToLuaType e \<noteq> LNil"
  by (cases e) simp_all

lemma push_elements_other:
  "(\<And>i. i < length vs \<Longrightarrow> k \<noteq> KNum (of_nat (j + i + 1))) \<Longrightarrow>
     map_of (push_elements j vs t) k = map_of t k"
proof (induction vs arbitrary: j t)
  case Nil
  show ?case by simp
next
  case (Cons v vs)
  have "map_of (push_elements (Suc j) vs (lua_settable t (KNum (of_nat (j + 1))) v)) k
      = map_of (lua_settable t (KNum (of_nat (j + 1))) v) k"
  proof (rule Cons.IH)
    fix i assume "i < length vs"
    then show "k \<noteq> KNum (of_nat (Suc j + i + 1))"
      using Cons.prems [of "Suc i"] by simp
  qed
  moreover have "k \<noteq> KNum (of_nat (j + 1))"
    using Cons.prems [of 0] by simp
  ultimately show ?case
    by (simp add: lua_settable_def update_conv' delete_conv')
qed

lemma push_elements_nth:
  "i < length vs \<Longrightarrow> LNil \<notin> set vs \<Longrightarrow>
     map_of (push_elements j vs t) (KNum (of_nat (j + i + 1))) = Some (vs ! i)"
proof (induction vs arbitrary: i j t)
  case Nil
  then show ?case by simp
next
  case (Cons v vs)
  show ?case
  proof (cases i)
    case 0
    have "map_of (push_elements (Suc j) vs (lua_settable t (KNum (of_nat (j + 1))) v))
            (KNum (of_nat (j + 1)))
        = map_of (lua_settable t (KNum (of_nat (j + 1))) v) (KNum (of_nat (j + 1)))"
      by (rule push_elements_other) simp
    moreover from Cons.prems have "v \<noteq> LNil" by auto
    ultimately show ?thesis
      using 0 by (simp add: lua_settable_def update_conv')
  next
    case (Suc i')
    with Cons.prems have "i' < length vs" and "LNil \<notin> set vs" by auto
    then have "map_of (push_elements (Suc j) vs (lua_settable t (KNum (of_nat (j + 1))) v))
        (KNum (of_nat (Suc j + i' + 1))) = Some (vs ! i')"
      by (rule Cons.IH)
    with Suc show ?thesis by simp
  qed
qed

lemma array_loop_push_elements:
  assumes "LNil \<notin> set vs" and "k \<le> length vs"
  shows "array_loop (push_elements 0 vs []) (Suc k) = those (map luaReplyToRedisReply (drop k vs))"
  using assms(2)
proof (induction "length vs - k" arbitrary: k)
  case 0
  then have k: "k = length vs" by simp
  have "map_of (push_elements 0 vs []) (KNum (of_nat (Suc k))) = map_of [] (KNum (of_nat (Suc k)))"
    by (rule push_elements_other) (simp add: k)
  then show ?case
    by (subst array_loop.simps) (simp add: lua_gettable_def k del: of_nat_Suc)
next
  case (Suc n)
  then have k: "k < length vs" by simp
  with assms(1) have get: "lua_gettable (push_elements 0 vs []) (KNum (of_nat (Suc k))) = vs ! k"
    using push_elements_nth [of k vs 0 "[]"] by (simp add: lua_gettable_def)
  from k assms(1) have "vs ! k \<noteq> LNil" by (metis nth_mem)
  then have ty: "lua_type (vs ! k) \<noteq> LUA_TNIL"
    by (cases "vs ! k") auto
  from Suc have IH: "array_loop (push_elements 0 vs []) (Suc (Suc k))
      = those (map luaReplyToRedisReply (drop (Suc k) vs))"
    by simp
  have "drop k vs = vs ! k # drop (Suc k) vs"
    using k by (simp add: Cons_nth_drop_Suc)
  then show ?case
    by (subst array_loop.simps) (simp add: get ty IH del: of_nat_Suc split: option.splits)
qed

lemma push_elements_no_field:
  "lua_gettable (push_elements 0 vs []) (KStr f) = LNil"
proof -
  have "map_of (push_elements 0 vs []) (KStr f) = map_of [] (KStr f)"
    by (rule push_elements_other) simp
  then show ?thesis by (simp add: lua_gettable_def)
qed

lemma those_map_Some: "(\<And>x. x \<in> set xs \<Longrightarrow> f (g x) = Some x) \<Longrightarrow> those (map f (map g xs)) = Some xs"
  by (induction xs) auto




section \<open>The command bridge\<close>

lemma CallArdb_frame:
  assumes "stack \<noteq> []" and "list_all lua_isstring stack"
  shows "takeWhile lua_isstring stack = stack"
    and "GetCommand (RedisCommandFrame (map (lua_tolstring h) stack))
           = lower_string (lua_tolstring h (hd stack))"
  using assms
  by (auto simp: takeWhile_eq_all_conv list_all_iff GetCommand_def RedisCommandFrame_def hd_map)



lemma redis_table_call:
  "lua_gettable (redis_table h) (KStr ''call'') = LCFunction Fn_Call"
  "lua_gettable (redis_table h) (KStr ''pcall'') = LCFunction Fn_PCall"
  by (simp_all add: redis_table_def lua_gettable_def lua_settable_def level_number_def
      split: option.splits)

lemma Init_redis:
  "globals (Init h) ''redis'' = Some (GValue (LTable (redis_table h)))"
  "globals (Init h) ''ardb'' = Some (GValue (LTable (redis_table h)))"
  by (simp_all add: Init_def scriptingEnableGlobalsProtection_def define_err_handler_def
      replace_math_random_def register_redis_def RemoveUnsupportedFunctions_def LoadLibs_def
      lua_open_def lua_setglobal_def lua_getglobal_def assign_global_def read_global_def Let_def)

lemma CallArdb_dispatch:
  assumes "stack \<noteq> []" and "list_all lua_isstring stack"
    and "FindRedisCommandHandlerSetting h (lower_string (lua_tolstring h (hd stack))) = Some setting"
    and "flags setting AND ARDB_CMD_NOSCRIPT h = 0"
    and "ProcessRedisCommand h (m_db s) (RedisCommandFrame (map (lua_tolstring h) stack)) = (db', reply)"
  shows "CallArdb h stack dbg raise_error s =
     (s\<lparr>m_db := db', ctx_reply := reply,
         dispatched := dispatched s @ [RedisCommandFrame (map (lua_tolstring h) stack)]\<rparr>,
      if raise_error \<and> is_error_reply reply
      then Raised (lua_getfield (redisProtocolToLuaType reply) ''err'')
      else Returned 1 [redisProtocolToLuaType reply])"
  using assms(1,3,4,5)
  by (simp add: CallArdb_def Let_def CallArdb_frame [OF assms(1,2)])

text \<open>
  Claim C10: \<open>Init\<close> registers \<open>Call\<close> as \<open>call\<close> and \<open>PCall\<close> as \<open>pcall\<close> in the
  table \<open>redis\<close>; \<open>Call\<close> runs the bridge with \<open>raise_error\<close> false and \<open>PCall\<close> with
  \<open>raise_error\<close> true. When the executor answers a dispatched command with an error,
  \<open>redis.pcall\<close> raises the error message in the script and \<open>redis.call\<close> returns the
  table with the \<open>err\<close> field.
\<close>

theorem call_returns_error_pcall_raises:
  assumes "stack \<noteq> []" and "list_all lua_isstring stack"
    and "FindRedisCommandHandlerSetting h (lower_string (lua_tolstring h (hd stack))) = Some setting"
    and "flags setting AND ARDB_CMD_NOSCRIPT h = 0"
    and "ProcessRedisCommand h (m_db s) (RedisCommandFrame (map (lua_tolstring h) stack))
           = (db', REDIS_REPLY_ERROR e)"
  shows "globals (Init h) ''redis'' = Some (GValue (LTable (redis_table h)))
       \<and> lua_gettable (redis_table h) (KStr ''call'') = LCFunction Fn_Call
       \<and> lua_gettable (redis_table h) (KStr ''pcall'') = LCFunction Fn_PCall
       \<and> invoke h Fn_Call stack dbg s = CallArdb h stack dbg False s
       \<and> invoke h Fn_PCall stack dbg s = CallArdb h stack dbg True s
       \<and> invoke h Fn_PCall stack dbg s =
           (s\<lparr>m_db := db', ctx_reply := REDIS_REPLY_ERROR e,
               dispatched := dispatched s @ [RedisCommandFrame (map (lua_tolstring h) stack)]\<rparr>,
            Raised (LStr e))
       \<and> invoke h Fn_Call stack dbg s =
           (s\<lparr>m_db := db', ctx_reply := REDIS_REPLY_ERROR e,
               dispatched := dispatched s @ [RedisCommandFrame (map (lua_tolstring h) stack)]\<rparr>,
            Returned 1 [LTable [(KStr ''err'', LStr e)]])"
proof -
  have "invoke h Fn_Call stack dbg s = CallArdb h stack dbg False s"
    and "invoke h Fn_PCall stack dbg s = CallArdb h stack dbg True s"
    by (simp_all add: invoke_def Call_def PCall_def)
  moreover have "CallArdb h stack dbg True s =
           (s\<lparr>m_db := db', ctx_reply := REDIS_REPLY_ERROR e,
               dispatched := dispatched s @ [RedisCommandFrame (map (lua_tolstring h) stack)]\<rparr>,
            Raised (LStr e))"
    by (simp add: CallArdb_dispatch [OF assms] lua_settable_def lua_gettable_def)
  moreover have "CallArdb h stack dbg False s =
           (s\<lparr>m_db := db', ctx_reply := REDIS_REPLY_ERROR e,
               dispatched := dispatched s @ [RedisCommandFrame (map (lua_tolstring h) stack)]\<rparr>,
            Returned 1 [LTable [(KStr ''err'', LStr e)]])"
    by (simp add: CallArdb_dispatch [OF assms] lua_settable_def)
  ultimately show ?thesis
    by (simp add: Init_redis redis_table_call)
qed

theorem call_returns_error_pcall_raises_witness:
  "invoke example_host Fn_PCall [LStr ''GET''] None example_server =
     (example_server\<lparr>m_db := [], ctx_reply := REDIS_REPLY_ERROR ''ERR wrong number of arguments'',
        dispatched := [[''get'']]\<rparr>,
      Raised (LStr ''ERR wrong number of arguments''))
   \<and> invoke example_host Fn_Call [LStr ''GET''] None example_server =
     (example_server\<lparr>m_db := [], ctx_reply := REDIS_REPLY_ERROR ''ERR wrong number of arguments'',
        dispatched := [[''get'']]\<rparr>,
      Returned 1 [LTable [(KStr ''err'', LStr ''ERR wrong number of arguments'')]])"
proof -
  have a: "[LStr ''GET''] \<noteq> []" "list_all lua_isstring [LStr ''GET'']"
    by (simp_all add: lua_isstring_def)
  have b: "FindRedisCommandHandlerSetting example_host
      (lower_string (lua_tolstring example_host (hd [LStr ''GET'']))) = Some \<lparr>flags = 1\<rparr>"
    by (simp add: example_host_def lua_tolstring_def lower_string_def lower_char_def)
  have c: "flags \<lparr>flags = 1\<rparr> AND ARDB_CMD_NOSCRIPT example_host = 0"
    by (simp add: example_host_def)
  have d: "ProcessRedisCommand example_host (m_db example_server)
       (RedisCommandFrame (map (lua_tolstring example_host) [LStr ''GET'']))
     = ([], REDIS_REPLY_ERROR ''ERR wrong number of arguments'')"
    by (simp add: example_host_def example_server_def example_ProcessRedisCommand_def
        RedisCommandFrame_def lua_tolstring_def lower_string_def lower_char_def)
  have e: "dispatched example_server @ [RedisCommandFrame (map (lua_tolstring example_host) [LStr ''GET''])]
     = [[''get'']]"
    by (simp add: example_server_def RedisCommandFrame_def lua_tolstring_def lower_string_def
        lower_char_def)
  from call_returns_error_pcall_raises [OF a b c d, of None, unfolded e]
  show ?thesis by blast
qed

section \<open>Defining a script\<close>

text \<open>
  A main chunk and the C API may always assign a global: the guard of \<open>__newindex\<close> lets
  both pass, so \<open>lua_setglobal\<close> and \<open>lua_getglobal\<close> act on the table of globals itself.
\<close>

lemma assign_global_main:
  "assign_global (Some ''main'') n v L = Inr (L\<lparr>globals := (globals L)(n := v)\<rparr>)"
  by (simp add: assign_global_def mt_newindex_def)

lemma assign_global_C_API:
  "assign_global None n v L = Inr (L\<lparr>globals := (globals L)(n := v)\<rparr>)"
  by (simp add: assign_global_def mt_newindex_def)

lemma lua_setglobal_raw:
  "lua_setglobal n v L = L\<lparr>globals := (globals L)(n := v)\<rparr>"
  by (simp add: lua_setglobal_def assign_global_C_API)

lemma lua_getglobal_raw:
  "lua_getglobal n L = globals L n"
  by (simp add: lua_getglobal_def read_global_def mt_index_def)

lemma CreateLuaFunction_cases:
  "CreateLuaFunction h funcname body err s =
     (case luaL_loadbuffer h (''function '' @ funcname @ ''() '' @ body @ '' end'') of
        LoadError m \<Rightarrow>
          (s, err @ ''Error compiling script (new function): '' @ c_str m @ [CHR 0x0A], - 1)
      | RunError m \<Rightarrow>
          (s, err @ ''Error running script (new function): '' @ c_str m @ [CHR 0x0A], - 1)
      | Defines fn \<Rightarrow>
          (s\<lparr>m_lua := (m_lua s)\<lparr>globals := (globals (m_lua s))(funcname \<mapsto> GFunction fn)\<rparr>,
             scripts := (scripts s)(funcname \<mapsto> body)\<rparr>, err, 0))"
  by (simp add: CreateLuaFunction_def Let_def assign_global_main SaveScript_def
      split: loaded.splits)

text \<open>
  Claim C5: \<open>Load\<close> is idempotent. Called a second time with the same body, on the server
  as the first call left it, it returns what the first call returned, status and output
  string, and leaves the server as it was: defining a digest that is already cached changes
  nothing. When the call succeeds (a body that does not compile fails, both times alike)
  the output string is the digest, the function is defined under the name derived from it
  and the body is stored under that name.
\<close>

theorem Load_idempotent:
  "Load h func (fst (Load h func s)) = Load h func s
   \<and> (snd (snd (Load h func s)) = 1 \<longrightarrow> fst (snd (Load h func s)) = sha1_sum h func)
   \<and> (snd (snd (Load h func s)) = 1 \<longrightarrow>
        lua_getglobal (''f_'' @ sha1_sum h func) (m_lua (fst (Load h func s))) \<noteq> None
        \<and> scripts (fst (Load h func s)) (''f_'' @ sha1_sum h func) = Some func)"
  by (simp add: Load_def Let_def CreateLuaFunction_cases lua_getglobal_raw split: loaded.splits)

theorem Load_idempotent_witness:
  "Load example_host ''return math.random(10)''
      (fst (Load example_host ''return math.random(10)'' example_server))
     = Load example_host ''return math.random(10)'' example_server
   \<and> snd (snd (Load example_host ''return math.random(10)'' example_server)) = 1
   \<and> fst (snd (Load example_host ''return math.random(10)'' example_server))
       = ''b1deeb5a70c8a7bef615d7fcb572c8472c371134''"
proof -
  have ok: "snd (snd (Load example_host ''return math.random(10)'' example_server)) = 1"
    by (simp add: Load_def Let_def CreateLuaFunction_cases example_host_def example_loadbuffer_def
        example_sha1_sum_def example_scripts_def)
  have sha: "sha1_sum example_host ''return math.random(10)'' = ''b1deeb5a70c8a7bef615d7fcb572c8472c371134''"
    by (simp add: example_host_def example_sha1_sum_def)
  from Load_idempotent [of example_host "''return math.random(10)''" example_server] ok sha
  show ?thesis by simp
qed

section \<open>A run of \<open>Eval\<close>\<close>

subsection \<open>A running script does not touch the interpreter's bookkeeping\<close>

lemma invoke_m_lua: "m_lua (fst (invoke h f stack dbg s)) = m_lua s"
  by (cases f)
    (auto simp: invoke_def Call_def PCall_def CallArdb_def MathRandom_def MathRandomSeed_def Let_def
      split: option.splits prod.splits list.splits sum.splits if_splits)

lemma ScriptEventCallback_kill_m_lua:
  "m_lua (ScriptEventCallback h SCRIPT_KILL_EVENT killing s) = m_lua s"
  by (simp add: ScriptEventCallback_def split: option.splits)

lemma Continue_m_lua: "m_lua (Continue h deliveries s) = m_lua s"
  unfolding Continue_def
  by (induction deliveries arbitrary: s) (simp_all add: ScriptEventCallback_kill_m_lua)

lemma MaskCountHook_m_lua: "m_lua (fst (MaskCountHook h now deliveries s)) = m_lua s"
  by (simp add: MaskCountHook_def Let_def Continue_m_lua)

lemma run_m_lua: "m_lua (fst (run h cp sc n s)) = m_lua s"
proof (induction sc arbitrary: n s)
  case (Return v)
  show ?case by simp
next
  case (Throw m)
  show ?case by simp
next
  case (Invoke f stack dbg k)
  obtain s' r where i: "invoke h f stack dbg s = (s', r)" by (cases "invoke h f stack dbg s")
  then have "m_lua s' = m_lua s" using invoke_m_lua [of h f stack dbg s] by simp
  moreover have "m_lua (fst (run h cp (k r) n s')) = m_lua s'"
    by (rule Invoke.IH) simp
  ultimately show ?case by (simp add: i)
next
  case (Count k)
  show ?case
  proof (cases "hook (m_lua s)")
    case None
    have "m_lua (fst (run h cp (k None) n s)) = m_lua s"
      by (rule Count.IH) simp
    with None show ?thesis by simp
  next
    case (Some c)
    obtain s' r where m: "MaskCountHook h (fst (cp n)) (snd (cp n)) s = (s', r)"
      by (cases "MaskCountHook h (fst (cp n)) (snd (cp n)) s")
    then have "m_lua s' = m_lua s"
      using MaskCountHook_m_lua [of h "fst (cp n)" "snd (cp n)" s] by simp
    moreover have "m_lua (fst (run h cp (k r) (Suc n) s')) = m_lua s'"
      by (rule Count.IH) simp
    ultimately show ?thesis by (simp add: Some m)
  qed
qed

lemma lua_pcall_m_lua: "m_lua (fst (lua_pcall h env f KEYS ARGV s)) = m_lua s"
  by (simp add: lua_pcall_def run_m_lua split: option.splits lua_global.splits)

lemma Eval_call_cleanup:
  assumes "Eval_call h env funcname f keys args s = (s', reply, rc)"
  shows "rc = 0 \<and> lua_executing_func (lua_ctx s') = None \<and> \<not> lua_timeout (lua_ctx s')
       \<and> hook (m_lua s') = (if 0 < sint (lua_time_limit h) then None else hook (m_lua s))
       \<and> gc_steps (m_lua s') = gc_steps (m_lua s) + 1
       \<and> strict (m_lua s') = strict (m_lua s)"
proof -
  let ?L1 = "luaSetGlobalArray ''ARGV'' args (luaSetGlobalArray ''KEYS'' keys (m_lua s))"
  let ?L2 = "if 0 < sint (lua_time_limit h) then ?L1\<lparr>hook := Some 100000\<rparr> else ?L1"
  let ?s1 = "s\<lparr>m_lua := ?L2,
                lua_ctx := (lua_ctx s)\<lparr>lua_time_start := start_time env,
                                       lua_executing_func := Some (drop 2 (c_str funcname)),
                                       lua_kill := False\<rparr>\<rparr>"
  let ?KEYS = "LTable (push_elements 0 (map LStr keys) [])"
  let ?ARGV = "LTable (push_elements 0 (map LStr args) [])"
  obtain s2 errid where p: "lua_pcall h env f ?KEYS ?ARGV ?s1 = (s2, errid)"
    by (cases "lua_pcall h env f ?KEYS ?ARGV ?s1")
  then have L: "m_lua s2 = ?L2"
    using lua_pcall_m_lua [of h env f ?KEYS ?ARGV ?s1] by simp
  have L1: "hook ?L1 = hook (m_lua s)" "gc_steps ?L1 = gc_steps (m_lua s)"
    "strict ?L1 = strict (m_lua s)"
    by (simp_all add: luaSetGlobalArray_def lua_setglobal_raw)
  from assms show ?thesis
    unfolding Eval_call_def Let_def p
    by (auto simp: L L1 split: sum.splits if_splits)
qed

lemma CreateLuaFunction_frame:
  assumes "CreateLuaFunction h funcname body err s = (s1, err1, rc)"
  shows "hook (m_lua s1) = hook (m_lua s)" and "gc_steps (m_lua s1) = gc_steps (m_lua s)"
    and "strict (m_lua s1) = strict (m_lua s)" and "lua_ctx s1 = lua_ctx s"
    and "m_db s1 = m_db s" and "dispatched s1 = dispatched s"
  using assms
  by (auto simp: CreateLuaFunction_cases split: loaded.splits)

subsection \<open>Runs of the example server\<close>

lemmas example_defs =
  example_host_def example_server_def example_env_def example_loadbuffer_def example_scripts_def
  example_sha1_sum_def example_loop_body_def example_checkpoint_def example_result_def
  example_elements_def example_ProcessRedisCommand_def

lemmas model_defs =
  Eval_def Eval_call_def lua_pcall_def CreateLuaFunction_cases lua_getglobal_raw lua_setglobal_raw
  luaSetGlobalArray_def MaskCountHook_def Continue_def ScriptEventCallback_def strcasecmp_eq_def
  c_str_def lower_char_def invoke_def Call_def PCall_def MathRandom_def MathRandomSeed_def
  Init_def scriptingEnableGlobalsProtection_def define_err_handler_def replace_math_random_def
  register_redis_def RemoveUnsupportedFunctions_def LoadLibs_def lua_open_def Let_def

lemma example_loop_killed:
  "Eval example_host example_env example_loop_body [] [] False example_server
   = (example_server
        \<lparr>m_lua := (Init example_host)
           \<lparr>globals := (globals (Init example_host))
              (''f_c1ae5a21a6594fea5f19488e7a2cfb995b5e9ed9'' \<mapsto>
                 GFunction (\<lambda>KEYS ARGV. example_checkpoint (example_checkpoint (example_checkpoint (Return LNil)))),
               ''KEYS'' \<mapsto> GValue (LTable []), ''ARGV'' \<mapsto> GValue (LTable [])),
            gc_steps := 1\<rparr>,
         lua_ctx := \<lparr>lua_time_start = 1000, lua_executing_func = None, lua_timeout = False,
                     lua_kill = True\<rparr>,
         scripts := (\<lambda>n. None)(''f_c1ae5a21a6594fea5f19488e7a2cfb995b5e9ed9'' \<mapsto> example_loop_body),
         rand48 := 13070,
         warn_log := [Slow_script (Some ''c1ae5a21a6594fea5f19488e7a2cfb995b5e9ed9'') 6000, Script_killed]\<rparr>,
      Some (REDIS_REPLY_ERROR (''Error running script (call to f_c1ae5a21a6594fea5f19488e7a2cfb995b5e9ed9): Script killed by user with SCRIPT KILL...'' @ [CHR 0x0A])),
      0)"
  by (simp add: model_defs example_defs)

lemma example_unknown_digest:
  "Eval example_host example_env ''aaaaaaaaaaaaaaaaaaaaaaaaaaaaaaaaaaaaaaaa'' [] [] True example_server
   = (example_server
        \<lparr>m_lua := (Init example_host)
           \<lparr>globals := (globals (Init example_host))
              (''f_aaaaaaaaaaaaaaaaaaaaaaaaaaaaaaaaaaaaaaaa'' \<mapsto> GFunction (\<lambda>KEYS ARGV. Return LNil),
               ''KEYS'' \<mapsto> GValue (LTable []), ''ARGV'' \<mapsto> GValue (LTable [])),
            gc_steps := 1\<rparr>,
         lua_ctx := \<lparr>lua_time_start = 1000, lua_executing_func = None, lua_timeout = False,
                     lua_kill = False\<rparr>,
         scripts := (\<lambda>n. None)(''f_aaaaaaaaaaaaaaaaaaaaaaaaaaaaaaaaaaaaaaaa'' \<mapsto> []),
         rand48 := 13070\<rparr>,
      Some REDIS_REPLY_NIL,
      0)"
  by (simp add: model_defs example_defs)

lemma example_draw: "\<lfloor>917126035 / 536870912 :: rat\<rfloor> = 1"
  by (simp add: floor_eq_iff)

lemma example_random:
  "Eval example_host example_env ''return math.random(10)'' [] [] False example_server
   = (example_server
        \<lparr>m_lua := (Init example_host)
           \<lparr>globals := (globals (Init example_host))
              (''f_b1deeb5a70c8a7bef615d7fcb572c8472c371134'' \<mapsto>
                 GFunction (\<lambda>KEYS ARGV. Invoke Fn_MathRandom [LNum 10] None example_result),
               ''KEYS'' \<mapsto> GValue (LTable []), ''ARGV'' \<mapsto> GValue (LTable [])),
            gc_steps := 1\<rparr>,
         lua_ctx := \<lparr>lua_time_start = 1000, lua_executing_func = None, lua_timeout = False,
                     lua_kill = False\<rparr>,
         scripts := (\<lambda>n. None)(''f_b1deeb5a70c8a7bef615d7fcb572c8472c371134'' \<mapsto> ''return math.random(10)''),
         rand48 := 48083817484545\<rparr>,
      Some (REDIS_REPLY_INTEGER 2),
      0)"
  by (simp add: model_defs example_defs to_long_long_def truncate_toward_zero_def example_draw)

subsection \<open>Cleanup\<close>




section \<open>EVALSHA\<close>

text \<open>
  A digest that is not forty characters long is refused at once; the server is left as it
  was but for the generator, which \<open>Eval\<close> has reseeded.
\<close>

lemma Eval_rejects_short_digest:
  "length func \<noteq> 40 \<Longrightarrow>
     Eval h env func keys args True s = (s\<lparr>rand48 := redisSrand48 h 0\<rparr>, Some NOSCRIPT, - 1)"
  by (simp add: Eval_def)

lemma Eval_call_rc: "snd (snd (Eval_call h env funcname f keys args s)) = 0"
  using Eval_call_cleanup [of h env funcname f keys args s]
  by (cases "Eval_call h env funcname f keys args s") auto

text \<open>
  For a digest of forty characters with no compiled function, \<open>Eval\<close> tests
  \<open>!GetScript(...)\<close> and \<open>Exists\<close> tests \<open>GetScript(...) == 0\<close>: whatever status
  \<open>GetScript\<close> returns, \<open>Eval\<close> answers NOSCRIPT exactly when \<open>Exists\<close> says that the
  script exists.
\<close>

lemma Eval_NOSCRIPT_iff_Exists:
  assumes "length digest = 40" and "lua_getglobal (c_str (''f_'' @ digest)) (m_lua s) = None"
  shows "snd (Eval h env digest keys args True s) = (Some NOSCRIPT, - 1) \<longleftrightarrow> Exists h s digest"
proof (cases "fst (GetScript h (scripts s) (''f_'' @ digest) []) = 0")
  case True
  with assms show ?thesis
    by (simp add: Eval_def Exists_def lua_getglobal_raw)
next
  case False
  let ?s = "s\<lparr>rand48 := redisSrand48 h 0\<rparr>"
  let ?body = "snd (GetScript h (scripts s) (''f_'' @ digest) [])"
  obtain s1 err rc where c: "CreateLuaFunction h (''f_'' @ digest) ?body [] ?s = (s1, err, rc)"
    by (cases "CreateLuaFunction h (''f_'' @ digest) ?body [] ?s") auto
  have "snd (Eval h env digest keys args True s) \<noteq> (Some NOSCRIPT, - 1)"
  proof (cases "rc = 0")
    case True
    with assms False c
    have "Eval h env digest keys args True s
        = Eval_call h env (''f_'' @ digest)
            (lua_getglobal (c_str (''f_'' @ digest)) (m_lua s1)) keys args s1"
      by (simp add: Eval_def lua_getglobal_raw Let_def)
    then have "snd (snd (Eval h env digest keys args True s)) = 0"
      by (simp add: Eval_call_rc)
    then show ?thesis by (cases "Eval h env digest keys args True s") auto
  next
    case rc: False
    with c have "\<exists>m. err = ''Error compiling script (new function): '' @ m
        \<or> err = ''Error running script (new function): '' @ m"
      by (auto simp: CreateLuaFunction_cases split: loaded.splits)
    then have "REDIS_REPLY_ERROR err \<noteq> NOSCRIPT"
      by (auto simp: NOSCRIPT_def)
    with assms False c rc show ?thesis
      by (simp add: Eval_def lua_getglobal_raw)
  qed
  with False show ?thesis by (simp add: Exists_def)
qed

text \<open>
  Claim C3 has EVALSHA of a digest that no \<open>Load\<close> or EVAL produced answer NOSCRIPT. On the
  example server, whose script store answers \<open>0\<close> for a name it finds (the reading of
  \<open>Exists\<close>), the digest of forty \<open>a\<close> has no compiled function and no record, and
  \<open>Exists\<close> denies it. \<open>Eval\<close> does not answer NOSCRIPT: it defines a function with an
  empty body under the digest, stores the empty body, runs the function and answers nil
  with the status \<open>0\<close>.
\<close>

theorem EVALSHA_of_unknown_digest_runs_an_empty_script:
  "lua_getglobal ''f_aaaaaaaaaaaaaaaaaaaaaaaaaaaaaaaaaaaaaaaa'' (m_lua example_server) = None
   \<and> scripts example_server ''f_aaaaaaaaaaaaaaaaaaaaaaaaaaaaaaaaaaaaaaaa'' = None
   \<and> \<not> Exists example_host example_server ''aaaaaaaaaaaaaaaaaaaaaaaaaaaaaaaaaaaaaaaa''
   \<and> snd (Eval example_host example_env ''aaaaaaaaaaaaaaaaaaaaaaaaaaaaaaaaaaaaaaaa'' [] [] True
            example_server) = (Some REDIS_REPLY_NIL, 0)
   \<and> scripts (fst (Eval example_host example_env ''aaaaaaaaaaaaaaaaaaaaaaaaaaaaaaaaaaaaaaaa'' [] []
            True example_server)) ''f_aaaaaaaaaaaaaaaaaaaaaaaaaaaaaaaaaaaaaaaa'' = Some []"
proof -
  have "lua_getglobal ''f_aaaaaaaaaaaaaaaaaaaaaaaaaaaaaaaaaaaaaaaa'' (m_lua example_server) = None"
    by (simp add: model_defs example_defs)
  moreover have "scripts example_server ''f_aaaaaaaaaaaaaaaaaaaaaaaaaaaaaaaaaaaaaaaa'' = None"
    by (simp add: example_server_def)
  moreover have "\<not> Exists example_host example_server ''aaaaaaaaaaaaaaaaaaaaaaaaaaaaaaaaaaaaaaaa''"
    by (simp add: Exists_def example_host_def example_server_def)
  ultimately show ?thesis
    by (simp add: example_unknown_digest)
qed

section \<open>Deterministic randomness\<close>

lemma Init_math:
  "\<exists>t. globals (Init h) ''math'' = Some (GValue (LTable t))
       \<and> lua_gettable t (KStr ''random'') = LCFunction Fn_MathRandom
       \<and> lua_gettable t (KStr ''randomseed'') = LCFunction Fn_MathRandomSeed"
  by (simp add: Init_def scriptingEnableGlobalsProtection_def define_err_handler_def
      replace_math_random_def lua_setglobal_raw lua_getglobal_raw Let_def
      lua_gettable_def lua_settable_def update_conv')

lemma MathRandom_generator_only:
  "snd (MathRandom h stack (s\<lparr>rand48 := g\<rparr>)) = snd (MathRandom h stack (t\<lparr>rand48 := g\<rparr>))"
  by (simp add: MathRandom_def Let_def split: prod.splits list.splits sum.splits)



section \<open>Cancellation\<close>

lemma ScriptEventCallback_kill:
  "ScriptEventCallback h SCRIPT_KILL_EVENT killing s =
     (if targets killing (lua_executing_func (lua_ctx s))
      then s\<lparr>lua_ctx := (lua_ctx s)\<lparr>lua_kill := True\<rparr>\<rparr> else s)"
  by (simp add: ScriptEventCallback_def targets_def split: option.splits)

lemma Continue_kill:
  "Continue h deliveries s =
     (if \<exists>killing \<in> set deliveries. targets killing (lua_executing_func (lua_ctx s))
      then s\<lparr>lua_ctx := (lua_ctx s)\<lparr>lua_kill := True\<rparr>\<rparr> else s)"
proof (induction deliveries arbitrary: s)
  case Nil
  show ?case by (simp add: Continue_def)
next
  case (Cons k ks)
  have "Continue h (k # ks) s = Continue h ks (ScriptEventCallback h SCRIPT_KILL_EVENT k s)"
    by (simp add: Continue_def)
  then show ?case
    by (simp add: Cons.IH ScriptEventCallback_kill)
qed

lemma MaskCountHook_raises:
  "snd (MaskCountHook h now deliveries s) \<noteq> None \<longleftrightarrow>
     lua_kill (lua_ctx s)
     \<or> ((lua_timeout (lua_ctx s) \<or> lua_time_limit h \<le> now - lua_time_start (lua_ctx s))
        \<and> (\<exists>killing \<in> set deliveries. targets killing (lua_executing_func (lua_ctx s))))"
  by (auto simp: MaskCountHook_def Let_def Continue_kill)

lemma MaskCountHook_result:
  "snd (MaskCountHook h now deliveries s) =
     (if lua_kill (lua_ctx (fst (MaskCountHook h now deliveries s)))
      then Some (LStr ''Script killed by user with SCRIPT KILL...'') else None)"
  by (simp add: MaskCountHook_def Let_def)

lemma MaskCountHook_flag:
  "lua_timeout (lua_ctx (fst (MaskCountHook h now deliveries s))) \<longleftrightarrow>
     lua_timeout (lua_ctx s) \<or> lua_time_limit h \<le> now - lua_time_start (lua_ctx s)"
  by (auto simp: MaskCountHook_def Let_def Continue_kill)

lemma MaskCountHook_warnings:
  "warn_log (fst (MaskCountHook h now deliveries s)) =
     warn_log s
     @ (if lua_time_limit h \<le> now - lua_time_start (lua_ctx s) \<and> \<not> lua_timeout (lua_ctx s)
        then [Slow_script (lua_executing_func (lua_ctx s)) (now - lua_time_start (lua_ctx s))]
        else [])
     @ (if snd (MaskCountHook h now deliveries s) \<noteq> None then [Script_killed] else [])"
  by (auto simp: MaskCountHook_def Let_def Continue_kill)

lemma run_Count_continues:
  "hook (m_lua s) \<noteq> None \<Longrightarrow> snd (MaskCountHook h (fst (cp n)) (snd (cp n)) s) = None \<Longrightarrow>
     run h cp (Count k) n s
       = run h cp (k None) (Suc n) (fst (MaskCountHook h (fst (cp n)) (snd (cp n)) s))"
  by (cases "MaskCountHook h (fst (cp n)) (snd (cp n)) s") auto

text \<open>
  Claim C8. The hook raises an error exactly when \<open>lua_kill\<close> is set, be it on entry or by
  a kill event that the service loop delivers during this call (the loop runs only once
  the run is flagged as overrunning) and that targets the running function; the error is
  the message of the kill. The time alone never raises: an elapsed time that reaches the
  limit sets \<open>lua_timeout\<close> and logs one warning, when the flag is first set, and when the
  hook raises nothing a script at a checkpoint goes on. A kill event sets \<open>lua_kill\<close> when
  a function is running and the target is its name or the word \<open>all\<close>, both compared
  without regard to case, and changes nothing otherwise.
\<close>

theorem cancellation_needs_kill:
  "(snd (MaskCountHook h now deliveries s) \<noteq> None \<longleftrightarrow>
      lua_kill (lua_ctx s)
      \<or> ((lua_timeout (lua_ctx s) \<or> lua_time_limit h \<le> now - lua_time_start (lua_ctx s))
         \<and> (\<exists>killing \<in> set deliveries. targets killing (lua_executing_func (lua_ctx s)))))
   \<and> snd (MaskCountHook h now deliveries s) =
       (if lua_kill (lua_ctx (fst (MaskCountHook h now deliveries s)))
        then Some (LStr ''Script killed by user with SCRIPT KILL...'') else None)
   \<and> (lua_timeout (lua_ctx (fst (MaskCountHook h now deliveries s))) \<longleftrightarrow>
        lua_timeout (lua_ctx s) \<or> lua_time_limit h \<le> now - lua_time_start (lua_ctx s))
   \<and> warn_log (fst (MaskCountHook h now deliveries s)) =
       warn_log s
       @ (if lua_time_limit h \<le> now - lua_time_start (lua_ctx s) \<and> \<not> lua_timeout (lua_ctx s)
          then [Slow_script (lua_executing_func (lua_ctx s)) (now - lua_time_start (lua_ctx s))]
          else [])
       @ (if snd (MaskCountHook h now deliveries s) \<noteq> None then [Script_killed] else [])
   \<and> (hook (m_lua s) \<noteq> None \<and> snd (MaskCountHook h (fst (cp n)) (snd (cp n)) s) = None \<longrightarrow>
        run h cp (Count k) n s
          = run h cp (k None) (Suc n) (fst (MaskCountHook h (fst (cp n)) (snd (cp n)) s)))
   \<and> ScriptEventCallback h SCRIPT_KILL_EVENT killing s =
       (if targets killing (lua_executing_func (lua_ctx s))
        then s\<lparr>lua_ctx := (lua_ctx s)\<lparr>lua_kill := True\<rparr>\<rparr> else s)"
  using MaskCountHook_raises [of h now deliveries s] MaskCountHook_result [of h now deliveries s]
    MaskCountHook_flag [of h now deliveries s] MaskCountHook_warnings [of h now deliveries s]
    run_Count_continues [of s h cp n k] ScriptEventCallback_kill [of h killing s]
  by blast

theorem cancellation_needs_kill_witness:
  "snd (MaskCountHook example_host 7000 [''da39a3ee5e6b4b0d3255bfef95601890afd80709''] example_running)
     = None
   \<and> lua_timeout (lua_ctx (fst (MaskCountHook example_host 7000
         [''da39a3ee5e6b4b0d3255bfef95601890afd80709''] example_running)))
   \<and> snd (MaskCountHook example_host 7000 [''C1AE5A21A6594FEA5F19488E7A2CFB995B5E9ED9''] example_running)
     = Some (LStr ''Script killed by user with SCRIPT KILL...'')
   \<and> snd (MaskCountHook example_host 2000 [''all''] example_running) = None"
proof -
  have ctx: "lua_kill (lua_ctx example_running) = False"
    "lua_timeout (lua_ctx example_running) = False"
    "lua_time_start (lua_ctx example_running) = 1000"
    "lua_executing_func (lua_ctx example_running) = Some ''c1ae5a21a6594fea5f19488e7a2cfb995b5e9ed9''"
    "lua_time_limit example_host = 5000"
    by (simp_all add: example_running_def example_host_def)
  have other: "\<not> targets ''da39a3ee5e6b4b0d3255bfef95601890afd80709''
      (Some ''c1ae5a21a6594fea5f19488e7a2cfb995b5e9ed9'')"
    by (simp add: targets_def strcasecmp_eq_def c_str_def lower_char_def)
  have same: "targets ''C1AE5A21A6594FEA5F19488E7A2CFB995B5E9ED9''
      (Some ''c1ae5a21a6594fea5f19488e7a2cfb995b5e9ed9'')"
    by (simp add: targets_def strcasecmp_eq_def c_str_def lower_char_def)
  have a: "snd (MaskCountHook example_host 7000 [''da39a3ee5e6b4b0d3255bfef95601890afd80709'']
      example_running) = None
    \<and> lua_timeout (lua_ctx (fst (MaskCountHook example_host 7000
         [''da39a3ee5e6b4b0d3255bfef95601890afd80709''] example_running)))"
    using cancellation_needs_kill [of example_host 7000
        "[''da39a3ee5e6b4b0d3255bfef95601890afd80709'']" example_running]
    by (simp add: ctx other)
  have b: "snd (MaskCountHook example_host 7000 [''C1AE5A21A6594FEA5F19488E7A2CFB995B5E9ED9'']
      example_running) = Some (LStr ''Script killed by user with SCRIPT KILL...'')"
  proof -
    note T = cancellation_needs_kill [of example_host 7000
        "[''C1AE5A21A6594FEA5F19488E7A2CFB995B5E9ED9'']" example_running]
    have "snd (MaskCountHook example_host 7000 [''C1AE5A21A6594FEA5F19488E7A2CFB995B5E9ED9'']
        example_running) \<noteq> None"
      using T [THEN conjunct1] by (simp add: ctx same)
    moreover have "snd (MaskCountHook example_host 7000
        [''C1AE5A21A6594FEA5F19488E7A2CFB995B5E9ED9''] example_running) =
       (if lua_kill (lua_ctx (fst (MaskCountHook example_host 7000
             [''C1AE5A21A6594FEA5F19488E7A2CFB995B5E9ED9''] example_running)))
        then Some (LStr ''Script killed by user with SCRIPT KILL...'') else None)"
      by (rule T [THEN conjunct2, THEN conjunct1])
    ultimately show ?thesis by (auto split: if_splits)
  qed
  have c: "snd (MaskCountHook example_host 2000 [''all''] example_running) = None"
    using cancellation_needs_kill [of example_host 2000 "[''all'']" example_running]
    by (simp add: ctx)
  from a b c show ?thesis by simp
qed

section \<open>The protection of the globals\<close>


lemma Init_globals_example: "globals (Init example_host) ''counter'' = None"
  by (simp add: model_defs example_defs)


end
